theory Spec2Isabelle
  imports Complex_Main "HOL-Library.AList"
begin

section \<open>Python floats\<close>

text \<open>
  The scripts compute on Python floats. A float is modelled as a real number or one of
  the three special values of IEEE 754. Arithmetic on the finite values is exact, except
  where the rounding of binary64 is written out (\<open>round_double\<close> below and the
  functions whose names end in \<open>_double\<close>). What is proved on the exact arithmetic are
  evaluations whose margins no rounding can change, identities between the expressions
  the code evaluates, and facts about comparisons and clamps, which binary64 computes
  exactly.
\<close>

datatype pyfloat = Finite real | PosInf | NegInf | NaN

text \<open>\<^verbatim>\<open>np.isnan(value)\<close>\<close>

fun isnan :: "pyfloat \<Rightarrow> bool" where
  "isnan NaN = True"
| "isnan _ = False"

text \<open>\<^verbatim>\<open>a < b\<close> on floats: every comparison with NaN is false.\<close>

fun pf_less :: "pyfloat \<Rightarrow> pyfloat \<Rightarrow> bool" where
  "pf_less NaN _ = False"
| "pf_less _ NaN = False"
| "pf_less (Finite a) (Finite b) = (a < b)"
| "pf_less (Finite a) PosInf = True"
| "pf_less (Finite a) NegInf = False"
| "pf_less PosInf _ = False"
| "pf_less NegInf NegInf = False"
| "pf_less NegInf _ = True"

text \<open>
  Python's builtins \<^verbatim>\<open>max(a, b)\<close> and \<^verbatim>\<open>min(a, b)\<close> keep the first
  argument unless the second is strictly greater (smaller).
\<close>

definition py_max :: "pyfloat \<Rightarrow> pyfloat \<Rightarrow> pyfloat" where
  "py_max a b = (if pf_less a b then b else a)"

definition py_min :: "pyfloat \<Rightarrow> pyfloat \<Rightarrow> pyfloat" where
  "py_min a b = (if pf_less b a then b else a)"

fun pf_neg :: "pyfloat \<Rightarrow> pyfloat" where
  "pf_neg (Finite a) = Finite (- a)"
| "pf_neg PosInf = NegInf"
| "pf_neg NegInf = PosInf"
| "pf_neg NaN = NaN"

fun pf_add :: "pyfloat \<Rightarrow> pyfloat \<Rightarrow> pyfloat" where
  "pf_add NaN _ = NaN"
| "pf_add _ NaN = NaN"
| "pf_add (Finite a) (Finite b) = Finite (a + b)"
| "pf_add (Finite a) PosInf = PosInf"
| "pf_add (Finite a) NegInf = NegInf"
| "pf_add PosInf NegInf = NaN"
| "pf_add PosInf _ = PosInf"
| "pf_add NegInf PosInf = NaN"
| "pf_add NegInf _ = NegInf"

definition pf_sub :: "pyfloat \<Rightarrow> pyfloat \<Rightarrow> pyfloat" where
  "pf_sub a b = pf_add a (pf_neg b)"

text \<open>The product of an infinity and a finite factor: the sign decides, zero gives NaN.\<close>

definition inf_times :: "bool \<Rightarrow> real \<Rightarrow> pyfloat" where
  "inf_times positive a =
     (if a = 0 then NaN else if (0 < a) = positive then PosInf else NegInf)"

fun pf_mul :: "pyfloat \<Rightarrow> pyfloat \<Rightarrow> pyfloat" where
  "pf_mul NaN _ = NaN"
| "pf_mul _ NaN = NaN"
| "pf_mul (Finite a) (Finite b) = Finite (a * b)"
| "pf_mul (Finite a) PosInf = inf_times True a"
| "pf_mul (Finite a) NegInf = inf_times False a"
| "pf_mul PosInf (Finite b) = inf_times True b"
| "pf_mul NegInf (Finite b) = inf_times False b"
| "pf_mul PosInf PosInf = PosInf"
| "pf_mul PosInf NegInf = NegInf"
| "pf_mul NegInf PosInf = NegInf"
| "pf_mul NegInf NegInf = PosInf"

datatype py_error = KeyError string | ZeroDivisionError | OSError string

text \<open>\<^verbatim>\<open>a / b\<close>: Python raises on a zero divisor, also for floats.\<close>

fun pf_div :: "pyfloat \<Rightarrow> pyfloat \<Rightarrow> py_error + pyfloat" where
  "pf_div a (Finite b) =
     (if b = 0 then Inl ZeroDivisionError
      else Inr (case a of Finite x \<Rightarrow> Finite (x / b)
                | PosInf \<Rightarrow> inf_times True b
                | NegInf \<Rightarrow> inf_times False b
                | NaN \<Rightarrow> NaN))"
| "pf_div (Finite a) PosInf = Inr (Finite 0)"
| "pf_div (Finite a) NegInf = Inr (Finite 0)"
| "pf_div a b = Inr NaN"

text \<open>
  \<^verbatim>\<open>max(0.0, min(1.0, value))\<close>. The result is always a finite float; it is
  returned as a real.
\<close>

definition clamp01 :: "pyfloat \<Rightarrow> real" where
  "clamp01 value =
     (case py_max (Finite 0) (py_min (Finite 1) value) of
        Finite r \<Rightarrow> r | PosInf \<Rightarrow> 1 | NegInf \<Rightarrow> 0 | NaN \<Rightarrow> 1)"

subsection \<open>Rounding to binary64\<close>

text \<open>
  A finite double is \<open>m * 2 ^ (e - 52)\<close> with an integer \<open>m\<close> of magnitude below
  \<open>2 ^ 53\<close> and \<open>- 1022 \<le> e\<close>. \<open>exp_up\<close> and \<open>exp_down\<close> count the halvings
  and doublings that bring a positive number into \<open>[1, 2)\<close>, so that \<open>binade a\<close> is the
  exponent \<open>e\<close> of the doubles around \<open>a\<close> (the least exponent for the subnormal ones).
\<close>

function exp_up :: "real \<Rightarrow> int" where
  "exp_up x = (if 2 \<le> x then exp_up (x / 2) + 1 else 0)"
  by pat_completeness auto
termination
proof (relation "measure (\<lambda>x. nat \<lfloor>x\<rfloor>)")
  show "wf (measure (\<lambda>x::real. nat \<lfloor>x\<rfloor>))" by simp
next
  fix x :: real assume x: "2 \<le> x"
  have "x / 2 \<le> x - 1" using x by simp
  then have "\<lfloor>x / 2\<rfloor> \<le> \<lfloor>x - 1\<rfloor>" by (rule floor_mono)
  then have "\<lfloor>x / 2\<rfloor> < \<lfloor>x\<rfloor>" by simp
  moreover have "0 < \<lfloor>x\<rfloor>" using x by simp
  ultimately show "(x / 2, x) \<in> measure (\<lambda>x. nat \<lfloor>x\<rfloor>)" by simp
qed

function exp_down :: "real \<Rightarrow> int" where
  "exp_down x = (if 0 < x \<and> x < 1 then exp_down (2 * x) - 1 else 0)"
  by pat_completeness auto
termination
proof (relation "measure (\<lambda>x. nat \<lfloor>1 / x\<rfloor>)")
  show "wf (measure (\<lambda>x::real. nat \<lfloor>1 / x\<rfloor>))" by simp
next
  fix x :: real assume x: "0 < x \<and> x < 1"
  then have y: "1 < 1 / x" by simp
  have h: "1 / (2 * x) = (1 / x) / 2" by simp
  have "\<lfloor>(1 / x) / 2\<rfloor> < \<lfloor>1 / x\<rfloor>"
  proof (cases "2 \<le> 1 / x")
    case True
    then have "(1 / x) / 2 \<le> 1 / x - 1" by simp
    then have "\<lfloor>(1 / x) / 2\<rfloor> \<le> \<lfloor>1 / x - 1\<rfloor>" by (rule floor_mono)
    then show ?thesis by simp
  next
    case False
    then have "(1 / x) / 2 < 1" by simp
    moreover have "0 \<le> (1 / x) / 2" using x by simp
    ultimately have "\<lfloor>(1 / x) / 2\<rfloor> = 0" by (simp add: floor_eq_iff)
    moreover have "1 \<le> \<lfloor>1 / x\<rfloor>" using y by simp
    ultimately show ?thesis by simp
  qed
  moreover have "0 < \<lfloor>1 / x\<rfloor>" using y by simp
  ultimately show "(2 * x, x) \<in> measure (\<lambda>x. nat \<lfloor>1 / x\<rfloor>)" by (simp add: h)
qed

declare exp_up.simps [simp del]
declare exp_down.simps [simp del]

definition pow2 :: "int \<Rightarrow> real" where
  "pow2 e = (if 0 \<le> e then 2 ^ nat e else 1 / 2 ^ nat (- e))"

definition binade :: "real \<Rightarrow> int" where
  "binade a = max (if 1 \<le> a then exp_up a else exp_down a) (- 1022)"

text \<open>The nearest integer, a tie going to the even one.\<close>

definition round_half_even :: "real \<Rightarrow> int" where
  "round_half_even q =
     (let f = \<lfloor>q\<rfloor>; r = q - of_int f
      in if r < 1 / 2 then f else if 1 / 2 < r then f + 1
         else if even f then f else f + 1)"

text \<open>
  The double nearest to a real number, as every binary64 operation and every decimal
  literal rounds its exact value (round to nearest, ties to even). Overflow to an
  infinity is not modelled: the values rounded below are smaller than 8.
\<close>

definition round_double :: "real \<Rightarrow> real" where
  "round_double x =
     (let u = pow2 (binade \<bar>x\<bar> - 52)
      in sgn x * (of_int (round_half_even (\<bar>x\<bar> / u)) * u))"


section \<open>The scorer: \<^verbatim>\<open>cognitive_model_scorer.py\<close>\<close>

text \<open>
  A model descriptor is the dictionary built by \<^verbatim>\<open>_create_mock_model\<close>; the
  scorer object holds the attributes set by \<^verbatim>\<open>__init__\<close>. Dictionaries are
  association lists in insertion order (the order Python iterates them in), read with
  \<open>map_of\<close> and written with \<open>AList.update\<close>, which overwrites a key in place and
  appends a new one, as a Python dictionary does.
\<close>

record model_info =
  model_type :: string
  accuracy :: real
  trained_date :: string
  version :: string
  n_features :: nat

record scorer =
  model_path :: string
  feature_names :: "string list"
  feature_importance :: "(string \<times> real) list"
  models :: "(string \<times> model_info) list"

text \<open>
  The request options. No function of the scorer reads them; the explainer reads
  \<^verbatim>\<open>explanationTypes\<close> and \<^verbatim>\<open>outputPath\<close> for the plots only.
\<close>

record options =
  noiseSeed :: "int option"
  explanationTypes :: "string list"
  outputPath :: string

text \<open>
  The response of \<^verbatim>\<open>score_features\<close>. \<^verbatim>\<open>processingTime\<close> and
  \<^verbatim>\<open>timestamp\<close> are read from the clock and are left out. The fallback response has
  no \<^verbatim>\<open>featuresUsed\<close> key, the normal one no \<^verbatim>\<open>error\<close> key.
\<close>

record score_result =
  riskScore :: pyfloat
  confidence :: real
  featureImportance :: "(string \<times> real) list"
  modelPredictions :: "(string \<times> pyfloat) list"
  modelType :: string
  featuresUsed :: "nat option"
  error :: "string option"

definition scorer_feature_names :: "string list" where
  "scorer_feature_names =
     [''wordCount'', ''sentenceCount'', ''averageWordsPerSentence'', ''typeTokenRatio'',
      ''vocabularySize'', ''lexicalDiversity'', ''complexWordRatio'', ''averageWordLength'',
      ''cognitiveHealthScore'', ''syntacticComplexity'', ''informationDensity'',
      ''hesitationRatio'']"

definition scorer_feature_importance :: "(string \<times> real) list" where
  "scorer_feature_importance =
     [(''cognitiveHealthScore'', 0.22),
      (''syntacticComplexity'', 0.18),
      (''lexicalDiversity'', 0.15),
      (''informationDensity'', 0.12),
      (''hesitationRatio'', 0.10),
      (''vocabularySize'', 0.08),
      (''typeTokenRatio'', 0.06),
      (''complexWordRatio'', 0.04),
      (''averageWordLength'', 0.03),
      (''averageWordsPerSentence'', 0.02)]"

definition create_mock_model :: "string list \<Rightarrow> string \<Rightarrow> real \<Rightarrow> model_info" where
  "create_mock_model names mt acc =
     \<lparr>model_type = mt, accuracy = acc, trained_date = ''2024-01-15'',
      version = ''1.0.0'', n_features = length names\<rparr>"

text \<open>Building the dictionary of four models cannot fail, so the \<^verbatim>\<open>except\<close> branch
  of \<^verbatim>\<open>_load_models\<close> (a single rule-based model) is never taken.\<close>

definition load_models :: "string list \<Rightarrow> (string \<times> model_info) list" where
  "load_models names =
     [(''random_forest'', create_mock_model names ''RandomForest'' 0.89),
      (''gradient_boosting'', create_mock_model names ''GradientBoosting'' 0.91),
      (''neural_network'', create_mock_model names ''NeuralNetwork'' 0.87),
      (''svm'', create_mock_model names ''SVM'' 0.85)]"

definition CognitiveModelScorer_init :: "string \<Rightarrow> scorer" where
  "CognitiveModelScorer_init path =
     \<lparr>model_path = path, feature_names = scorer_feature_names,
      feature_importance = scorer_feature_importance,
      models = load_models scorer_feature_names\<rparr>"

text \<open>\<^verbatim>\<open>_prepare_feature_vector\<close>: one entry per enumerated name, in order.\<close>

definition prepare_feature_vector :: "scorer \<Rightarrow> (string \<times> pyfloat) list \<Rightarrow> real list" where
  "prepare_feature_vector self feats =
     map (\<lambda>feature_name.
            case map_of feats feature_name of
              Some v \<Rightarrow> if \<not> isnan v then clamp01 v else 0.5
            | None \<Rightarrow> 0.5)
         (feature_names self)"

text \<open>The model-specific bias of \<^verbatim>\<open>_simulate_model_prediction\<close>, an
  \<^verbatim>\<open>if/elif\<close> chain without \<^verbatim>\<open>else\<close>.\<close>

definition apply_bias :: "string \<Rightarrow> real \<Rightarrow> real" where
  "apply_bias mt contribution =
     (if mt = ''RandomForest'' then contribution * 1.05
      else if mt = ''GradientBoosting'' then contribution * 0.98
      else if mt = ''NeuralNetwork'' then contribution * 1.02
      else if mt = ''SVM'' then contribution * 0.96
      else contribution)"

text \<open>
  The loop of \<^verbatim>\<open>_simulate_model_prediction\<close>:
  \<^verbatim>\<open>for i, (feature_name, importance) in enumerate(self.feature_importance.items())\<close>
  reads \<^verbatim>\<open>feature_vector[i]\<close>, where \<open>i\<close> is the position of the entry in the
  importance table.
\<close>

fun base_score_loop :: "real list \<Rightarrow> string \<Rightarrow> nat \<Rightarrow> (string \<times> real) list \<Rightarrow> real \<Rightarrow> real" where
  "base_score_loop fv mt i [] base_score = base_score"
| "base_score_loop fv mt i ((feature_name, importance) # rest) base_score =
     base_score_loop fv mt (Suc i) rest
       (if i < length fv then base_score + apply_bias mt (fv ! i * importance)
        else base_score)"

definition base_score :: "scorer \<Rightarrow> real list \<Rightarrow> model_info \<Rightarrow> real" where
  "base_score self fv info = base_score_loop fv (model_type info) 0 (feature_importance self) 0"

text \<open>\<open>noise\<close> is the value drawn by \<^verbatim>\<open>np.random.normal(0, 0.02)\<close>.\<close>

definition simulate_model_prediction :: "scorer \<Rightarrow> real list \<Rightarrow> model_info \<Rightarrow> real \<Rightarrow> real" where
  "simulate_model_prediction self fv info noise =
     (let score = base_score self fv info + noise in max 0 (min 1 score))"

text \<open>
  \<^verbatim>\<open>_get_ensemble_predictions\<close>. The ambient generator is a sequence of draws
  \<open>noise\<close>; the \<open>k\<close>-th model of the table consumes draw \<open>k\<close>. The simulation of a
  model raises nothing on this data, so no model is skipped.
\<close>

fun ensemble_predictions_loop ::
  "scorer \<Rightarrow> real list \<Rightarrow> (nat \<Rightarrow> real) \<Rightarrow> nat \<Rightarrow> (string \<times> model_info) list \<Rightarrow> (string \<times> real) list" where
  "ensemble_predictions_loop self fv noise k [] = []"
| "ensemble_predictions_loop self fv noise k ((model_name, info) # rest) =
     (model_name, simulate_model_prediction self fv info (noise k))
       # ensemble_predictions_loop self fv noise (Suc k) rest"

definition get_ensemble_predictions :: "scorer \<Rightarrow> real list \<Rightarrow> (nat \<Rightarrow> real) \<Rightarrow> (string \<times> real) list" where
  "get_ensemble_predictions self fv noise = ensemble_predictions_loop self fv noise 0 (models self)"

text \<open>\<^verbatim>\<open>_calculate_ensemble_score\<close>, in exact arithmetic;
  \<^verbatim>\<open>self.models[model_name]\<close> raises KeyError for an unknown model name.\<close>

fun ensemble_sums ::
  "(string \<times> model_info) list \<Rightarrow> (string \<times> real) list \<Rightarrow> real \<times> real \<Rightarrow> py_error + real \<times> real" where
  "ensemble_sums ms [] acc = Inr acc"
| "ensemble_sums ms ((model_name, prediction) # rest) (weighted_sum, total_weight) =
     (case map_of ms model_name of
        None \<Rightarrow> Inl (KeyError model_name)
      | Some info \<Rightarrow>
          ensemble_sums ms rest
            (weighted_sum + prediction * accuracy info, total_weight + accuracy info))"

definition calculate_ensemble_score :: "scorer \<Rightarrow> (string \<times> real) list \<Rightarrow> py_error + real" where
  "calculate_ensemble_score self predictions =
     (if predictions = [] then Inr 0.5
      else case ensemble_sums (models self) predictions (0, 0) of
             Inl e \<Rightarrow> Inl e
           | Inr (weighted_sum, total_weight) \<Rightarrow>
               if total_weight = 0 then Inr 0.5
               else Inr (max 0 (min 1 (weighted_sum / total_weight))))"

text \<open>
  \<^verbatim>\<open>_calculate_ensemble_score\<close> once more, with the rounding of binary64 written
  out: the accuracy literal is stored as the nearest double, and the product, the two
  running sums and the quotient are each rounded. The predictions are doubles already.
  The comparisons and the clamp are exact.
\<close>

fun ensemble_sums_double ::
  "(string \<times> model_info) list \<Rightarrow> (string \<times> real) list \<Rightarrow> real \<times> real \<Rightarrow> py_error + real \<times> real" where
  "ensemble_sums_double ms [] acc = Inr acc"
| "ensemble_sums_double ms ((model_name, prediction) # rest) (weighted_sum, total_weight) =
     (case map_of ms model_name of
        None \<Rightarrow> Inl (KeyError model_name)
      | Some info \<Rightarrow>
          (let weight = round_double (accuracy info)
           in ensemble_sums_double ms rest
                (round_double (weighted_sum + round_double (prediction * weight)),
                 round_double (total_weight + weight))))"

definition calculate_ensemble_score_double ::
  "scorer \<Rightarrow> (string \<times> real) list \<Rightarrow> py_error + real" where
  "calculate_ensemble_score_double self predictions =
     (if predictions = [] then Inr 0.5
      else case ensemble_sums_double (models self) predictions (0, 0) of
             Inl e \<Rightarrow> Inl e
           | Inr (weighted_sum, total_weight) \<Rightarrow>
               if total_weight = 0 then Inr 0.5
               else Inr (max 0 (min 1 (round_double (weighted_sum / total_weight)))))"

text \<open>\<^verbatim>\<open>np.mean\<close> and \<^verbatim>\<open>np.std\<close> (the population standard deviation) of a
  non-empty list.\<close>

definition np_mean :: "real list \<Rightarrow> real" where
  "np_mean xs = sum_list xs / real (length xs)"

definition np_std :: "real list \<Rightarrow> real" where
  "np_std xs = sqrt (np_mean (map (\<lambda>x. (x - np_mean xs)\<^sup>2) xs))"

text \<open>
  The completeness part of \<^verbatim>\<open>_calculate_prediction_confidence\<close>: the entries of the
  prepared vector that are neither \<^verbatim>\<open>None\<close> nor NaN are counted. The vector holds
  floats only, so the \<^verbatim>\<open>None\<close> test is always passed.
\<close>

definition non_null_features :: "real list \<Rightarrow> nat" where
  "non_null_features fv = length (filter (\<lambda>f. \<not> isnan (Finite f)) fv)"

definition completeness_bonus :: "scorer \<Rightarrow> real list \<Rightarrow> py_error + real" where
  "completeness_bonus self fv =
     (if length (feature_names self) = 0 then Inl ZeroDivisionError
      else Inr (real (non_null_features fv) / real (length (feature_names self)) * 0.2))"

definition base_confidence :: "real list \<Rightarrow> real" where
  "base_confidence pred_values =
     (if length pred_values = 1 then 0.7
      else max 0.5 (1.0 - np_std pred_values * 2))"

definition extreme_bonus :: "real list \<Rightarrow> real" where
  "extreme_bonus pred_values = \<bar>np_mean pred_values - 0.5\<bar> * 0.1"

definition calculate_prediction_confidence ::
  "scorer \<Rightarrow> (string \<times> real) list \<Rightarrow> real list \<Rightarrow> py_error + real" where
  "calculate_prediction_confidence self predictions fv =
     (if predictions = [] then Inr 0.3
      else let pred_values = map snd predictions in
        case completeness_bonus self fv of
          Inl e \<Rightarrow> Inl e
        | Inr bonus \<Rightarrow>
            Inr (max 0.3 (min 0.95
                   (base_confidence pred_values + bonus + extreme_bonus pred_values))))"

text \<open>\<^verbatim>\<open>_calculate_feature_importance\<close>\<close>

fun importance_loop ::
  "scorer \<Rightarrow> real list \<Rightarrow> nat \<Rightarrow> string list \<Rightarrow> (string \<times> real) list \<Rightarrow> (string \<times> real) list" where
  "importance_loop self fv i [] importance = importance"
| "importance_loop self fv i (feature_name # rest) importance =
     importance_loop self fv (Suc i) rest
       (if i < length fv then
          AList.update feature_name
            ((case map_of (feature_importance self) feature_name of
                Some w \<Rightarrow> w | None \<Rightarrow> 0.01) + \<bar>fv ! i - 0.5\<bar> * 0.1)
            importance
        else importance)"

definition calculate_feature_importance :: "scorer \<Rightarrow> real list \<Rightarrow> (string \<times> real) list" where
  "calculate_feature_importance self fv =
     (let importance = importance_loop self fv 0 (feature_names self) [];
          total_importance = sum_list (map snd importance)
      in if total_importance > 0
         then map (\<lambda>(k, v). (k, v / total_importance)) importance
         else importance)"

text \<open>\<^verbatim>\<open>_fallback_scoring\<close>, on the raw feature mapping.\<close>

definition fallback_score :: "(string \<times> pyfloat) list \<Rightarrow> pyfloat" where
  "fallback_score feats =
     (let score = Finite 0.5;
          score = (case map_of feats ''cognitiveHealthScore'' of
                     Some v \<Rightarrow> pf_add (pf_mul v (Finite 0.7)) (pf_mul score (Finite 0.3))
                   | None \<Rightarrow> score)
      in case map_of feats ''hesitationRatio'' of
           Some h \<Rightarrow> py_max (Finite 0) (pf_sub score (pf_mul h (Finite 0.2)))
         | None \<Rightarrow> score)"

definition fallback_scoring :: "scorer \<Rightarrow> (string \<times> pyfloat) list \<Rightarrow> string \<Rightarrow> score_result" where
  "fallback_scoring self feats error_msg =
     (let score = fallback_score feats in
      \<lparr>riskScore = score, confidence = 0.4,
       featureImportance = feature_importance self,
       modelPredictions = [(''fallback'', score)],
       modelType = ''fallback'', featuresUsed = None, error = Some error_msg\<rparr>)"

text \<open>\<^verbatim>\<open>str(e)\<close>\<close>

fun error_str :: "py_error \<Rightarrow> string" where
  "error_str (KeyError k) = [CHR 0x27] @ k @ [CHR 0x27]"
| "error_str ZeroDivisionError = ''division by zero''"
| "error_str (OSError msg) = msg"

text \<open>\<^verbatim>\<open>score_features\<close>: any exception of the pipeline leads to the fallback.\<close>

definition score_features ::
  "scorer \<Rightarrow> (string \<times> pyfloat) list \<Rightarrow> options \<Rightarrow> (nat \<Rightarrow> real) \<Rightarrow> score_result" where
  "score_features self feats opts noise =
     (let feature_vector = prepare_feature_vector self feats;
          predictions = get_ensemble_predictions self feature_vector noise
      in case calculate_ensemble_score self predictions of
           Inl e \<Rightarrow> fallback_scoring self feats (error_str e)
         | Inr risk_score \<Rightarrow>
            (case calculate_prediction_confidence self predictions feature_vector of
               Inl e \<Rightarrow> fallback_scoring self feats (error_str e)
             | Inr conf \<Rightarrow>
                \<lparr>riskScore = Finite risk_score, confidence = conf,
                 featureImportance = calculate_feature_importance self feature_vector,
                 modelPredictions = map (\<lambda>(k, v). (k, Finite v)) predictions,
                 modelType = ''ensemble'',
                 featuresUsed = Some (length feature_vector),
                 error = None\<rparr>))"

section \<open>The explainer: \<^verbatim>\<open>shap_explainer.py\<close>\<close>

record explainer =
  shap_feature_names :: "string list"
  feature_weights :: "(string \<times> real) list"
  expected_value :: real
  feature_ranges :: "(string \<times> real \<times> real) list"

text \<open>
  The response of \<^verbatim>\<open>generate_shap_explanation\<close>, without the clock readings and the
  library version of its metadata. \<^verbatim>\<open>visualizations\<close> maps a plot kind to its status.
\<close>

record shap_result =
  shapValues :: "(string \<times> real) list"
  baseValue :: real
  expectedValue :: real
  featureNames :: "string list"
  featureValues :: "(string \<times> real) list"
  shap_modelType :: string
  shap_error :: "string option"
  visualizations :: "(string \<times> string) list"
  featureCount :: nat

definition CognitiveShapExplainer_init :: explainer where
  "CognitiveShapExplainer_init =
     \<lparr>shap_feature_names =
        [''wordCount'', ''sentenceCount'', ''averageWordsPerSentence'', ''typeTokenRatio'',
         ''vocabularySize'', ''lexicalDiversity'', ''complexWordRatio'', ''averageWordLength'',
         ''cognitiveHealthScore'', ''syntacticComplexity'', ''informationDensity'',
         ''hesitationRatio'', ''sentimentScore''],
      feature_weights =
        [(''cognitiveHealthScore'', 0.25),
         (''syntacticComplexity'', 0.18),
         (''lexicalDiversity'', 0.15),
         (''informationDensity'', 0.12),
         (''hesitationRatio'', - 0.10),
         (''vocabularySize'', 0.08),
         (''typeTokenRatio'', 0.06),
         (''complexWordRatio'', 0.04),
         (''averageWordLength'', 0.03),
         (''averageWordsPerSentence'', 0.02),
         (''wordCount'', 0.02),
         (''sentenceCount'', 0.01),
         (''sentimentScore'', 0.04)],
      expected_value = 0.5,
      feature_ranges =
        [(''wordCount'', (10, 500)),
         (''sentenceCount'', (2, 50)),
         (''averageWordsPerSentence'', (5, 25)),
         (''typeTokenRatio'', (0.3, 1.0)),
         (''vocabularySize'', (20, 400)),
         (''lexicalDiversity'', (0.3, 1.0)),
         (''complexWordRatio'', (0.0, 0.5)),
         (''averageWordLength'', (3.0, 8.0)),
         (''cognitiveHealthScore'', (0.0, 1.0)),
         (''syntacticComplexity'', (0.0, 1.0)),
         (''informationDensity'', (0.0, 1.0)),
         (''hesitationRatio'', (0.0, 0.3)),
         (''sentimentScore'', (- 2.0, 2.0))]\<rparr>"

text \<open>\<^verbatim>\<open>_normalize_feature\<close>\<close>

definition normalize_feature :: "explainer \<Rightarrow> string \<Rightarrow> pyfloat \<Rightarrow> py_error + real" where
  "normalize_feature self feature_name v =
     (case map_of (feature_ranges self) feature_name of
        None \<Rightarrow> Inr (clamp01 v)
      | Some (min_val, max_val) \<Rightarrow>
          (case pf_div (pf_sub v (Finite min_val)) (Finite (max_val - min_val)) of
             Inl e \<Rightarrow> Inl e
           | Inr normalized \<Rightarrow> Inr (clamp01 normalized)))"

text \<open>\<^verbatim>\<open>_prepare_feature_vector\<close> of the explainer builds a dictionary.\<close>

fun shap_prepare_loop ::
  "explainer \<Rightarrow> (string \<times> pyfloat) list \<Rightarrow> string list \<Rightarrow> (string \<times> real) list
     \<Rightarrow> py_error + (string \<times> real) list" where
  "shap_prepare_loop self feats [] vector = Inr vector"
| "shap_prepare_loop self feats (feature_name # rest) vector =
     (case map_of feats feature_name of
        Some v \<Rightarrow>
          if \<not> isnan v then
            (case normalize_feature self feature_name v of
               Inl e \<Rightarrow> Inl e
             | Inr normalized_value \<Rightarrow>
                 shap_prepare_loop self feats rest
                   (AList.update feature_name normalized_value vector))
          else shap_prepare_loop self feats rest (AList.update feature_name 0.5 vector)
      | None \<Rightarrow> shap_prepare_loop self feats rest (AList.update feature_name 0.5 vector))"

definition shap_prepare_feature_vector ::
  "explainer \<Rightarrow> (string \<times> pyfloat) list \<Rightarrow> py_error + (string \<times> real) list" where
  "shap_prepare_feature_vector self feats =
     shap_prepare_loop self feats (shap_feature_names self) []"

text \<open>\<^verbatim>\<open>prediction.get('riskScore', 0.5)\<close> and
  \<^verbatim>\<open>self.feature_weights.get(feature_name, 0.01)\<close>\<close>

definition risk_score_of :: "(string \<times> real) list \<Rightarrow> real" where
  "risk_score_of prediction =
     (case map_of prediction ''riskScore'' of Some r \<Rightarrow> r | None \<Rightarrow> 0.5)"

definition weight_of :: "explainer \<Rightarrow> string \<Rightarrow> real" where
  "weight_of self feature_name =
     (case map_of (feature_weights self) feature_name of Some w \<Rightarrow> w | None \<Rightarrow> 0.01)"

definition total_abs_weight :: "explainer \<Rightarrow> (string \<times> real) list \<Rightarrow> real" where
  "total_abs_weight self feature_vector =
     sum_list (map (\<lambda>(feature_name, v). \<bar>weight_of self feature_name\<bar>) feature_vector)"

text \<open>
  \<^verbatim>\<open>_calculate_tree_shap\<close>. The feature vector is a dictionary, so its keys are
  distinct and the loop writes one entry per item, in order; the \<open>j\<close>-th item consumes
  draw \<open>j\<close> of \<^verbatim>\<open>np.random.normal(0, 0.01)\<close>. \<open>tree_shap_noisy\<close> is the dictionary
  before the final adjustment. The sum that the guard of the adjustment tests is the
  exact one here, where the code tests the rounded sum.
\<close>

fun tree_shap_loop ::
  "explainer \<Rightarrow> real \<Rightarrow> real \<Rightarrow> (nat \<Rightarrow> real) \<Rightarrow> nat \<Rightarrow> (string \<times> real) list
     \<Rightarrow> (string \<times> real) list" where
  "tree_shap_loop self total_contribution weighted_sum noise j [] = []"
| "tree_shap_loop self total_contribution weighted_sum noise j ((feature_name, v) # rest) =
     (let weight = weight_of self feature_name;
          base_contribution = (v - 0.5) * weight;
          scaled_contribution =
            (if weighted_sum > 0 then base_contribution * (total_contribution / weighted_sum)
             else 0)
      in (feature_name, scaled_contribution + noise j)
           # tree_shap_loop self total_contribution weighted_sum noise (Suc j) rest)"

definition tree_shap_noisy ::
  "explainer \<Rightarrow> (string \<times> real) list \<Rightarrow> (string \<times> real) list \<Rightarrow> (nat \<Rightarrow> real)
     \<Rightarrow> (string \<times> real) list" where
  "tree_shap_noisy self feature_vector prediction noise =
     tree_shap_loop self (risk_score_of prediction - expected_value self)
       (total_abs_weight self feature_vector) noise 0 feature_vector"

definition calculate_tree_shap ::
  "explainer \<Rightarrow> (string \<times> real) list \<Rightarrow> (string \<times> real) list \<Rightarrow> (nat \<Rightarrow> real)
     \<Rightarrow> (string \<times> real) list" where
  "calculate_tree_shap self feature_vector prediction noise =
     (let total_contribution = risk_score_of prediction - expected_value self;
          shap_values = tree_shap_noisy self feature_vector prediction noise;
          current_sum = sum_list (map snd shap_values)
      in if current_sum \<noteq> 0
         then map (\<lambda>(k, v). (k, v * (total_contribution / current_sum))) shap_values
         else shap_values)"

text \<open>\<^verbatim>\<open>_calculate_approximate_shap\<close>; the loop of \<^verbatim>\<open>_fallback_explanation\<close>
  computes the same values.\<close>

definition calculate_approximate_shap ::
  "explainer \<Rightarrow> (string \<times> real) list \<Rightarrow> (string \<times> real) list \<Rightarrow> (string \<times> real) list" where
  "calculate_approximate_shap self feature_vector prediction =
     (let total_contribution = risk_score_of prediction - expected_value self;
          total_weight = total_abs_weight self feature_vector
      in map (\<lambda>(feature_name, v).
                (feature_name,
                 if total_weight > 0
                 then (v - 0.5) * weight_of self feature_name * (total_contribution / total_weight)
                 else 0))
             feature_vector)"

text \<open>\<^verbatim>\<open>_calculate_shap_values\<close>; \<open>shap_available\<close> is the module flag
  \<^verbatim>\<open>SHAP_AVAILABLE\<close>. The tree computation raises nothing on this data.\<close>

definition calculate_shap_values ::
  "bool \<Rightarrow> explainer \<Rightarrow> (string \<times> real) list \<Rightarrow> (string \<times> real) list \<Rightarrow> (nat \<Rightarrow> real)
     \<Rightarrow> (string \<times> real) list" where
  "calculate_shap_values shap_available self feature_vector prediction noise =
     (if \<not> shap_available then calculate_approximate_shap self feature_vector prediction
      else calculate_tree_shap self feature_vector prediction noise)"

text \<open>\<^verbatim>\<open>_fallback_explanation\<close> prepares the vector again, outside any
  \<^verbatim>\<open>try\<close>.\<close>

definition fallback_explanation ::
  "explainer \<Rightarrow> (string \<times> pyfloat) list \<Rightarrow> (string \<times> real) list \<Rightarrow> string
     \<Rightarrow> py_error + shap_result" where
  "fallback_explanation self feats prediction error_msg =
     (case shap_prepare_feature_vector self feats of
        Inl e \<Rightarrow> Inl e
      | Inr feature_vector \<Rightarrow>
          (let shap_values = calculate_approximate_shap self feature_vector prediction in
           Inr \<lparr>shapValues = shap_values, baseValue = expected_value self,
                expectedValue = expected_value self,
                featureNames = map fst shap_values, featureValues = feature_vector,
                shap_modelType = ''fallback'', shap_error = Some error_msg,
                visualizations = [], featureCount = length feature_vector\<rparr>))"

text \<open>
  \<^verbatim>\<open>generate_shap_explanation\<close>. The plots are drawn by the rendering layer only when
  \<^verbatim>\<open>explanationTypes\<close> is not empty; \<open>rendered\<close> is what
  \<^verbatim>\<open>_generate_visualizations\<close> returns or raises then.
\<close>

definition generate_shap_explanation ::
  "bool \<Rightarrow> explainer \<Rightarrow> (string \<times> pyfloat) list \<Rightarrow> (string \<times> real) list \<Rightarrow> options
     \<Rightarrow> (nat \<Rightarrow> real) \<Rightarrow> py_error + (string \<times> string) list \<Rightarrow> py_error + shap_result" where
  "generate_shap_explanation shap_available self feats prediction opts noise rendered =
     (case shap_prepare_feature_vector self feats of
        Inl e \<Rightarrow> fallback_explanation self feats prediction (error_str e)
      | Inr feature_vector \<Rightarrow>
          (let shap_values =
                 calculate_shap_values shap_available self feature_vector prediction noise
           in case (if explanationTypes opts \<noteq> [] then rendered else Inr []) of
                Inl e \<Rightarrow> fallback_explanation self feats prediction (error_str e)
              | Inr viz \<Rightarrow>
                  Inr \<lparr>shapValues = shap_values, baseValue = expected_value self,
                       expectedValue = expected_value self,
                       featureNames = map fst shap_values, featureValues = feature_vector,
                       shap_modelType = ''ensemble'', shap_error = None,
                       visualizations = viz, featureCount = length feature_vector\<rparr>))"

section \<open>Reference definitions\<close>

text \<open>The accuracy of a model of the table, as the code reads it.\<close>

definition accuracy_of :: "scorer \<Rightarrow> string \<Rightarrow> real" where
  "accuracy_of self model_name =
     (case map_of (models self) model_name of Some info \<Rightarrow> accuracy info | None \<Rightarrow> 0)"

text \<open>Every prediction belongs to a model of the table, whose accuracy is positive.\<close>

definition known_models :: "scorer \<Rightarrow> (string \<times> real) list \<Rightarrow> bool" where
  "known_models self predictions =
     list_all (\<lambda>(n, p). case map_of (models self) n of
                           Some info \<Rightarrow> 0 < accuracy info | None \<Rightarrow> False)
              predictions"

text \<open>
  The accuracy-weighted mean of a map of predictions, as the specification words it: the
  sum of prediction times accuracy over the sum of the accuracies. The accuracies are
  those the program holds, each literal stored as the nearest double; the sums and the
  quotient are exact.
\<close>

definition double_accuracy_of :: "scorer \<Rightarrow> string \<Rightarrow> real" where
  "double_accuracy_of self model_name = round_double (accuracy_of self model_name)"

definition double_weighted_mean :: "scorer \<Rightarrow> (string \<times> real) list \<Rightarrow> real" where
  "double_weighted_mean self predictions =
     sum_list (map (\<lambda>(n, p). p * double_accuracy_of self n) predictions)
       / sum_list (map (\<lambda>(n, p). double_accuracy_of self n) predictions)"

text \<open>
  The per-model contribution as the specification words it: each feature with a defined
  weight contributes its own value of the vector (the value at the position of its name
  in the enumeration) times its own weight, times the bias of the model.
\<close>

definition own_value :: "scorer \<Rightarrow> real list \<Rightarrow> string \<Rightarrow> real" where
  "own_value self fv feature_name =
     (case map_of (zip (feature_names self) fv) feature_name of Some v \<Rightarrow> v | None \<Rightarrow> 0)"

definition spec_base_score :: "scorer \<Rightarrow> real list \<Rightarrow> model_info \<Rightarrow> real" where
  "spec_base_score self fv info =
     sum_list (map (\<lambda>(feature_name, weight).
                      apply_bias (model_type info) (own_value self fv feature_name * weight))
                   (feature_importance self))"

text \<open>
  The completeness bonus as the specification words it: the share of the enumerated
  features that are present and finite in the raw mapping, times 0.2.
\<close>

definition spec_completeness_bonus :: "scorer \<Rightarrow> (string \<times> pyfloat) list \<Rightarrow> real" where
  "spec_completeness_bonus self feats =
     real (length (filter (\<lambda>feature_name.
                             case map_of feats feature_name of
                               Some (Finite x) \<Rightarrow> True | _ \<Rightarrow> False)
                          (feature_names self)))
       / real (length (feature_names self)) * 0.2"

text \<open>The sum of the raw contributions \<open>(value - 0.5) * weight\<close> of a feature vector.\<close>

definition raw_contribution_sum :: "explainer \<Rightarrow> (string \<times> real) list \<Rightarrow> real" where
  "raw_contribution_sum self feature_vector =
     sum_list (map (\<lambda>(feature_name, v). (v - 0.5) * weight_of self feature_name)
                   feature_vector)"

text \<open>A float that is finite and lies in the unit interval; a raw entry that is absent
  or such a float.\<close>

definition in_unit :: "pyfloat \<Rightarrow> bool" where
  "in_unit x = (case x of Finite r \<Rightarrow> 0 \<le> r \<and> r \<le> 1 | _ \<Rightarrow> False)"

definition normalized_entry :: "(string \<times> pyfloat) list \<Rightarrow> string \<Rightarrow> bool" where
  "normalized_entry feats feature_name =
     (case map_of feats feature_name of None \<Rightarrow> True | Some v \<Rightarrow> in_unit v)"

text \<open>No configured range of the given names is degenerate; the value the explainer's
  preparation loop stores for one name.\<close>

definition ranges_ok :: "explainer \<Rightarrow> string list \<Rightarrow> bool" where
  "ranges_ok self names =
     list_all (\<lambda>feature_name.
                 case map_of (feature_ranges self) feature_name of
                   None \<Rightarrow> True
                 | Some (min_val, max_val) \<Rightarrow> max_val - min_val \<noteq> 0)
              names"

definition entry_value :: "explainer \<Rightarrow> (string \<times> pyfloat) list \<Rightarrow> string \<Rightarrow> real" where
  "entry_value self feats feature_name =
     (case map_of feats feature_name of
        Some v \<Rightarrow>
          if \<not> isnan v then
            (case normalize_feature self feature_name v of Inr r \<Rightarrow> r | Inl e \<Rightarrow> 0.5)
          else 0.5
      | None \<Rightarrow> 0.5)"

section \<open>Sample inputs\<close>

definition zero_noise :: "nat \<Rightarrow> real" where
  "zero_noise k = 0"



definition seeded_options :: options where
  "seeded_options =
     \<lparr>noiseSeed = Some 42, explanationTypes = [], outputPath = ''./visualizations''\<rparr>"


definition default_scorer :: scorer where
  "default_scorer = CognitiveModelScorer_init ''./models''"

definition scorer_without_models :: scorer where
  "scorer_without_models = default_scorer\<lparr>models := []\<rparr>"

definition random_forest :: model_info where
  "random_forest = create_mock_model scorer_feature_names ''RandomForest'' 0.89"

definition dyadic_predictions :: "(string \<times> real) list" where
  "dyadic_predictions =
     [(''random_forest'', 1 / 4), (''gradient_boosting'', 3 / 4), (''neural_network'', 1 / 2)]"

definition features_primary :: "(string \<times> pyfloat) list" where
  "features_primary = [(''cognitiveHealthScore'', Finite 1)]"

definition features_high :: "(string \<times> pyfloat) list" where
  "features_high = [(''cognitiveHealthScore'', Finite 2)]"

definition features_hesitant :: "(string \<times> pyfloat) list" where
  "features_hesitant = [(''hesitationRatio'', Finite 1)]"

definition features_both :: "(string \<times> pyfloat) list" where
  "features_both = [(''cognitiveHealthScore'', Finite 1), (''hesitationRatio'', Finite 0.5)]"

definition features_infinite :: "(string \<times> pyfloat) list" where
  "features_infinite = [(''wordCount'', PosInf)]"

definition features_mixed :: "(string \<times> pyfloat) list" where
  "features_mixed =
     [(''wordCount'', Finite 255), (''hesitationRatio'', NaN),
      (''cognitiveHealthScore'', Finite 2)]"


definition vector_primary :: "(string \<times> real) list" where
  "vector_primary =
     [(''wordCount'', 0.5), (''sentenceCount'', 0.5), (''averageWordsPerSentence'', 0.5),
      (''typeTokenRatio'', 0.5), (''vocabularySize'', 0.5), (''lexicalDiversity'', 0.5),
      (''complexWordRatio'', 0.5), (''averageWordLength'', 0.5),
      (''cognitiveHealthScore'', 1), (''syntacticComplexity'', 0.5),
      (''informationDensity'', 0.5), (''hesitationRatio'', 0.5), (''sentimentScore'', 0.5)]"


definition prediction_08 :: "(string \<times> real) list" where
  "prediction_08 = [(''riskScore'', 0.8)]"


text \<open>The map \<^verbatim>\<open>{'random_forest': 0.09}\<close>; the literal denotes the nearest double.\<close>

definition single_prediction :: "(string \<times> real) list" where
  "single_prediction = [(''random_forest'', round_double 0.09)]"


section \<open>Evaluation rules\<close>

lemmas scorer_init_simps =
  default_scorer_def CognitiveModelScorer_init_def scorer_feature_names_def
  scorer_feature_importance_def load_models_def create_mock_model_def

lemmas explainer_init_simps =
  CognitiveShapExplainer_init_def weight_of_def total_abs_weight_def risk_score_of_def

lemma prepare_primary:
  "prepare_feature_vector default_scorer features_primary
     = [1 / 2, 1 / 2, 1 / 2, 1 / 2, 1 / 2, 1 / 2, 1 / 2, 1 / 2, 1, 1 / 2, 1 / 2, 1 / 2]"
  by (simp add: prepare_feature_vector_def scorer_init_simps features_primary_def
      clamp01_def py_max_def py_min_def)

lemma prepare_empty:
  "prepare_feature_vector default_scorer []
     = [1 / 2, 1 / 2, 1 / 2, 1 / 2, 1 / 2, 1 / 2, 1 / 2, 1 / 2, 1 / 2, 1 / 2, 1 / 2, 1 / 2]"
  by (simp add: prepare_feature_vector_def scorer_init_simps)

lemma shap_prepare_primary:
  "shap_prepare_feature_vector CognitiveShapExplainer_init features_primary = Inr vector_primary"
  by (simp add: shap_prepare_feature_vector_def CognitiveShapExplainer_init_def
      features_primary_def vector_primary_def normalize_feature_def pf_sub_def clamp01_def
      py_max_def py_min_def)


section \<open>C1: conservation of the attribution\<close>

text \<open>
  C1: on every attribution path the emitted values sum to the risk score minus the
  baseline 0.5, up to a relative tolerance of 1e-6, whenever the raw contributions do not
  sum to zero. The tree path rescales its values to that end
  (\<^verbatim>\<open># Ensure SHAP values sum to (prediction - expected_value)\<close>); the linear
  approximation, which is taken when the SHAP library is not installed, divides by the sum
  of the absolute weights and has no such step. With only
  \<^verbatim>\<open>cognitiveHealthScore = 1.0\<close> supplied and a risk score of 0.8 the raw
  contributions sum to 1/8, the target is 3/10, and the values of the linear
  approximation sum to 3/88.
\<close>

theorem linear_attribution_not_conserved:
  "shap_prepare_feature_vector CognitiveShapExplainer_init features_primary = Inr vector_primary
   \<and> raw_contribution_sum CognitiveShapExplainer_init vector_primary = 1 / 8
   \<and> risk_score_of prediction_08 - expected_value CognitiveShapExplainer_init = 3 / 10
   \<and> sum_list (map snd (calculate_shap_values False CognitiveShapExplainer_init vector_primary
                 prediction_08 zero_noise)) = 3 / 88
   \<and> \<bar>3 / 88 - 3 / 10\<bar> > 1 / 1000000 * \<bar>3 / 10 :: real\<bar>
   \<and> (\<exists>r. generate_shap_explanation False CognitiveShapExplainer_init features_primary
             prediction_08 seeded_options zero_noise (Inr []) = Inr r
          \<and> sum_list (map snd (shapValues r)) = 3 / 88)"
proof -
  have a: "raw_contribution_sum CognitiveShapExplainer_init vector_primary = 1 / 8"
    by (simp add: raw_contribution_sum_def explainer_init_simps vector_primary_def)
  have b: "sum_list (map snd (calculate_shap_values False CognitiveShapExplainer_init
             vector_primary prediction_08 zero_noise)) = 3 / 88"
    by (simp add: calculate_shap_values_def calculate_approximate_shap_def explainer_init_simps
        vector_primary_def prediction_08_def)
  have c: "risk_score_of prediction_08 - expected_value CognitiveShapExplainer_init = 3 / 10"
    by (simp add: risk_score_of_def prediction_08_def CognitiveShapExplainer_init_def)
  have d: "generate_shap_explanation False CognitiveShapExplainer_init features_primary
             prediction_08 seeded_options zero_noise (Inr [])
           = Inr \<lparr>shapValues = calculate_shap_values False CognitiveShapExplainer_init
                                 vector_primary prediction_08 zero_noise,
                  baseValue = expected_value CognitiveShapExplainer_init,
                  expectedValue = expected_value CognitiveShapExplainer_init,
                  featureNames = map fst (calculate_shap_values False CognitiveShapExplainer_init
                                            vector_primary prediction_08 zero_noise),
                  featureValues = vector_primary,
                  shap_modelType = ''ensemble'', shap_error = None,
                  visualizations = [], featureCount = length vector_primary\<rparr>"
    unfolding generate_shap_explanation_def shap_prepare_primary
    by (simp add: seeded_options_def Let_def)
  have e: "\<exists>r. generate_shap_explanation False CognitiveShapExplainer_init features_primary
             prediction_08 seeded_options zero_noise (Inr []) = Inr r
          \<and> sum_list (map snd (shapValues r)) = 3 / 88"
    unfolding d using b by simp
  show ?thesis using shap_prepare_primary e by (simp add: a b c)
qed


section \<open>C2: the empty ensemble\<close>

text \<open>
  C2 says that a scoring call without any surviving model prediction returns the score
  0.5, the confidence 0.3 and a result whose \<^verbatim>\<open>modelType\<close> is "fallback". The
  normal path of \<^verbatim>\<open>score_features\<close> always writes "ensemble": for a scorer whose
  model table is empty the result is not tagged "fallback".
\<close>

theorem no_prediction_not_fallback:
  "get_ensemble_predictions scorer_without_models (prepare_feature_vector scorer_without_models []) zero_noise = []
   \<and> modelType (score_features scorer_without_models [] seeded_options zero_noise) \<noteq> ''fallback''"
  by (simp add: get_ensemble_predictions_def scorer_without_models_def score_features_def Let_def
      calculate_ensemble_score_def calculate_prediction_confidence_def)


text \<open>
  C2 as amended: without any model prediction the scoring call returns the score 0.5 and
  the confidence 0.3, with \<^verbatim>\<open>modelType\<close> "ensemble" and no error field.
\<close>

theorem no_prediction_result:
  assumes "get_ensemble_predictions self (prepare_feature_vector self feats) noise = []"
  shows "riskScore (score_features self feats opts noise) = Finite 0.5
       \<and> confidence (score_features self feats opts noise) = 0.3
       \<and> modelType (score_features self feats opts noise) = ''ensemble''
       \<and> error (score_features self feats opts noise) = None"
  using assms
  by (simp add: score_features_def Let_def calculate_ensemble_score_def calculate_prediction_confidence_def)

theorem no_prediction_result_witness:
  "get_ensemble_predictions scorer_without_models (prepare_feature_vector scorer_without_models []) zero_noise = []
   \<and> riskScore (score_features scorer_without_models [] seeded_options zero_noise) = Finite 0.5
   \<and> confidence (score_features scorer_without_models [] seeded_options zero_noise) = 0.3
   \<and> modelType (score_features scorer_without_models [] seeded_options zero_noise) = ''ensemble''"
proof -
  have h: "get_ensemble_predictions scorer_without_models (prepare_feature_vector scorer_without_models []) zero_noise = []"
    by (simp add: get_ensemble_predictions_def scorer_without_models_def)
  show ?thesis using no_prediction_result[OF h, of seeded_options] h by simp
qed


section \<open>C3: the per-model weighted sum\<close>

text \<open>
  C3 says that the prediction of a model before noise and clamping is the sum, over the
  features with a defined weight, of the feature's own value times its own weight times
  the bias of the model. The loop of the code pairs the \<open>i\<close>-th weight of the importance
  table with the \<open>i\<close>-th entry of the vector, which belongs to another feature. With only
  \<^verbatim>\<open>cognitiveHealthScore = 1.0\<close> supplied, the random-forest model computes
  2163/4000, where the sum C3 describes is 1281/2000.
\<close>

theorem base_score_uses_table_position:
  "base_score default_scorer (prepare_feature_vector default_scorer features_primary) random_forest
     = 2163 / 4000
   \<and> spec_base_score default_scorer (prepare_feature_vector default_scorer features_primary)
       random_forest = 1281 / 2000"
proof -
  have a: "base_score default_scorer
             [1 / 2, 1 / 2, 1 / 2, 1 / 2, 1 / 2, 1 / 2, 1 / 2, 1 / 2, 1, 1 / 2, 1 / 2, 1 / 2]
             random_forest = 2163 / 4000"
    by (simp add: base_score_def scorer_init_simps random_forest_def apply_bias_def)
  have b: "spec_base_score default_scorer
             [1 / 2, 1 / 2, 1 / 2, 1 / 2, 1 / 2, 1 / 2, 1 / 2, 1 / 2, 1, 1 / 2, 1 / 2, 1 / 2]
             random_forest = 1281 / 2000"
    by (simp add: spec_base_score_def own_value_def scorer_init_simps random_forest_def apply_bias_def)
  show ?thesis by (simp only: prepare_primary a b)
qed


section \<open>C4: the ranges of score and confidence\<close>

lemma fallback_score_in_unit:
  assumes "normalized_entry feats ''cognitiveHealthScore''" "normalized_entry feats ''hesitationRatio''"
  shows "in_unit (fallback_score feats)"
  using assms
  by (auto simp: normalized_entry_def in_unit_def fallback_score_def Let_def py_max_def pf_sub_def
      split: option.splits pyfloat.splits)

lemma ensemble_score_range:
  "calculate_ensemble_score self ps = Inr r \<Longrightarrow> 0 \<le> r \<and> r \<le> 1"
  by (auto simp: calculate_ensemble_score_def split: if_splits sum.splits prod.splits)

lemma confidence_range:
  "calculate_prediction_confidence self ps fv = Inr c \<Longrightarrow> 0.3 \<le> c \<and> c \<le> 0.95"
  by (auto simp: calculate_prediction_confidence_def Let_def max_def min_def split: if_splits sum.splits)

lemma default_normal_path:
  "modelType (score_features (CognitiveModelScorer_init p) feats opts noise) = ''ensemble''"
  by (simp add: score_features_def Let_def get_ensemble_predictions_def
      CognitiveModelScorer_init_def load_models_def create_mock_model_def
      calculate_ensemble_score_def calculate_prediction_confidence_def completeness_bonus_def
      scorer_feature_names_def)


text \<open>
  C4: for all well-formed inputs the risk score lies in [0,1] and the confidence in
  [0.3,0.95], on the normal ensemble path and on the fallback path. The scorer with the
  shipped model table answers every raw mapping on the normal path, within these ranges
  (first three parts); so does every result of the normal path of any scorer (fourth
  part); and the fallback rule returns the confidence 0.4 and a risk score in [0,1] on a
  well-formed input, that is when the two normalized entries it reads
  (\<^verbatim>\<open>cognitiveHealthScore\<close>, \<^verbatim>\<open>hesitationRatio\<close>) are absent or lie in
  [0,1] (last part).
\<close>

theorem score_ranges:
  "in_unit (riskScore (score_features (CognitiveModelScorer_init p) feats opts noise))
   \<and> 0.3 \<le> confidence (score_features (CognitiveModelScorer_init p) feats opts noise)
   \<and> confidence (score_features (CognitiveModelScorer_init p) feats opts noise) \<le> 0.95
   \<and> (modelType (score_features self feats opts noise) = ''ensemble''
      \<longrightarrow> in_unit (riskScore (score_features self feats opts noise))
          \<and> 0.3 \<le> confidence (score_features self feats opts noise)
          \<and> confidence (score_features self feats opts noise) \<le> 0.95)
   \<and> (normalized_entry feats ''cognitiveHealthScore'' \<and> normalized_entry feats ''hesitationRatio''
      \<longrightarrow> in_unit (riskScore (fallback_scoring self feats msg))
          \<and> confidence (fallback_scoring self feats msg) = 0.4)"
proof -
  have normal: "in_unit (riskScore (score_features s feats opts noise))
        \<and> 0.3 \<le> confidence (score_features s feats opts noise)
        \<and> confidence (score_features s feats opts noise) \<le> 0.95"
    if m: "modelType (score_features s feats opts noise) = ''ensemble''" for s
  proof -
    let ?r = "score_features s feats opts noise"
    let ?fv = "prepare_feature_vector s feats"
    let ?ps = "get_ensemble_predictions s ?fv noise"
    from m obtain x c where x: "calculate_ensemble_score s ?ps = Inr x"
      and c: "calculate_prediction_confidence s ?ps ?fv = Inr c"
      by (auto simp: score_features_def Let_def fallback_scoring_def split: sum.splits)
    have rs: "riskScore ?r = Finite x" and cf: "confidence ?r = c"
      using x c by (simp_all add: score_features_def Let_def)
    show ?thesis
      using ensemble_score_range[OF x] confidence_range[OF c] rs cf by (simp add: in_unit_def)
  qed
  have fb: "in_unit (riskScore (fallback_scoring self feats msg))"
    if "normalized_entry feats ''cognitiveHealthScore'' \<and> normalized_entry feats ''hesitationRatio''"
    using that fallback_score_in_unit by (simp add: fallback_scoring_def Let_def)
  have cf: "confidence (fallback_scoring self feats msg) = 0.4"
    by (simp add: fallback_scoring_def Let_def)
  show ?thesis
    using normal[OF default_normal_path[of p feats opts noise]] normal[of self] fb cf
    by blast
qed

text \<open>An instance: the shipped scorer on a mapping with an out-of-range entry (normal
  path), and the fallback rule on a mapping whose two entries lie in [0,1].\<close>

theorem score_ranges_witness:
  "modelType (score_features default_scorer features_high seeded_options zero_noise) = ''ensemble''
   \<and> in_unit (riskScore (score_features default_scorer features_high seeded_options zero_noise))
   \<and> 0.3 \<le> confidence (score_features default_scorer features_high seeded_options zero_noise)
   \<and> confidence (score_features default_scorer features_high seeded_options zero_noise) \<le> 0.95
   \<and> normalized_entry features_both ''cognitiveHealthScore''
   \<and> normalized_entry features_both ''hesitationRatio''
   \<and> in_unit (riskScore (fallback_scoring default_scorer features_both ''boom''))
   \<and> confidence (fallback_scoring default_scorer features_both ''boom'') = 0.4"
proof -
  have m: "modelType (score_features default_scorer features_high seeded_options zero_noise)
             = ''ensemble''"
    using default_normal_path[of "''./models''"] by (simp add: default_scorer_def)
  have n: "normalized_entry features_both ''cognitiveHealthScore''
           \<and> normalized_entry features_both ''hesitationRatio''"
    by (simp add: normalized_entry_def features_both_def in_unit_def)
  show ?thesis
    using score_ranges[of "''./models''" features_high seeded_options zero_noise default_scorer
        "''boom''"]
      score_ranges[of "''./models''" features_both seeded_options zero_noise default_scorer
        "''boom''"] m n
    by (simp add: default_scorer_def)
qed

section \<open>C5: the normalizer\<close>

text \<open>
  C5 says that the normalizer returns a value in [0,1] for each enumerated feature, that
  a missing or non-finite entry becomes exactly 0.5, and that a present finite value is
  clamped (rescaled by its configured range, then clamped). The code tests for
  \<^verbatim>\<open>None\<close> and NaN only: an infinite entry is clamped like any other value, so
  \<^verbatim>\<open>wordCount = +inf\<close> becomes 1, not 0.5.
\<close>

theorem infinite_entry_is_clamped:
  "map_of features_infinite ''wordCount'' = Some PosInf
   \<and> prepare_feature_vector default_scorer features_infinite
       = [1, 1 / 2, 1 / 2, 1 / 2, 1 / 2, 1 / 2, 1 / 2, 1 / 2, 1 / 2, 1 / 2, 1 / 2, 1 / 2]"
  by (simp add: prepare_feature_vector_def scorer_init_simps features_infinite_def
      clamp01_def py_max_def py_min_def)

lemma clamp01_range: "0 \<le> clamp01 v \<and> clamp01 v \<le> 1"
  by (cases v) (auto simp: clamp01_def py_max_def py_min_def)

lemma clamp01_Finite: "clamp01 (Finite x) = max 0 (min 1 x)"
  by (auto simp: clamp01_def py_max_def py_min_def)

lemma update_fresh: "k \<notin> fst ` set al \<Longrightarrow> AList.update k v al = al @ [(k, v)]"
  by (induction al) auto

lemma normalize_feature_ok:
  assumes "ranges_ok self [n]"
  shows "\<exists>r. normalize_feature self n v = Inr r \<and> 0 \<le> r \<and> r \<le> 1"
proof (cases "map_of (feature_ranges self) n")
  case None
  then show ?thesis using clamp01_range by (simp add: normalize_feature_def)
next
  case (Some p)
  obtain lo hi where p: "p = (lo, hi)" by (cases p)
  from assms Some p have nz: "hi - lo \<noteq> 0" by (simp add: ranges_ok_def)
  then obtain q where q: "pf_div (pf_sub v (Finite lo)) (Finite (hi - lo)) = Inr q"
    by simp
  show ?thesis using Some p q clamp01_range by (simp add: normalize_feature_def)
qed

lemma normalize_feature_Finite:
  assumes "map_of (feature_ranges self) n = Some (lo, hi)" "hi - lo \<noteq> 0"
  shows "normalize_feature self n (Finite x) = Inr (max 0 (min 1 ((x - lo) / (hi - lo))))"
  using assms by (simp add: normalize_feature_def pf_sub_def clamp01_Finite)

lemma shap_prepare_loop_eq:
  assumes "distinct names" "set names \<inter> fst ` set vec = {}" "ranges_ok self names"
  shows "shap_prepare_loop self feats names vec
           = Inr (vec @ map (\<lambda>n. (n, entry_value self feats n)) names)"
  using assms
proof (induction names arbitrary: vec)
  case Nil
  then show ?case by simp
next
  case (Cons n names)
  have fresh: "n \<notin> fst ` set vec" using Cons.prems(2) by auto
  have ok1: "ranges_ok self [n]" and ok: "ranges_ok self names"
    using Cons.prems(3) by (simp_all add: ranges_ok_def)
  have d: "distinct names" and nn: "n \<notin> set names" using Cons.prems(1) by simp_all
  have step: "\<And>x. shap_prepare_loop self feats names (AList.update n x vec)
                 = Inr ((vec @ [(n, x)]) @ map (\<lambda>n. (n, entry_value self feats n)) names)"
  proof -
    fix x
    have "set names \<inter> fst ` set (vec @ [(n, x)]) = {}"
      using Cons.prems(2) nn by auto
    then show "shap_prepare_loop self feats names (AList.update n x vec)
                 = Inr ((vec @ [(n, x)]) @ map (\<lambda>n. (n, entry_value self feats n)) names)"
      using Cons.IH[OF d _ ok, of "vec @ [(n, x)]"] update_fresh[OF fresh] by simp
  qed
  show ?case
  proof (cases "map_of feats n")
    case None
    then show ?thesis using step[of "0.5"] by (simp add: entry_value_def)
  next
    case (Some v)
    show ?thesis
    proof (cases "isnan v")
      case True
      then show ?thesis using Some step[of "0.5"] by (simp add: entry_value_def)
    next
      case False
      obtain r where r: "normalize_feature self n v = Inr r"
        using normalize_feature_ok[OF ok1] by blast
      then show ?thesis using Some False step[of r] by (simp add: entry_value_def)
    qed
  qed
qed

lemma entry_value_range:
  assumes "ranges_ok self [n]"
  shows "0 \<le> entry_value self feats n \<and> entry_value self feats n \<le> 1"
proof (cases "map_of feats n")
  case None
  then show ?thesis by (simp add: entry_value_def)
next
  case (Some v)
  obtain r where "normalize_feature self n v = Inr r" "0 \<le> r" "r \<le> 1"
    using normalize_feature_ok[OF assms] by blast
  then show ?thesis using Some by (simp add: entry_value_def)
qed

lemma init_ranges_ok:
  "ranges_ok CognitiveShapExplainer_init (shap_feature_names CognitiveShapExplainer_init)"
  by (simp add: ranges_ok_def CognitiveShapExplainer_init_def)

lemma init_names_distinct: "distinct (shap_feature_names CognitiveShapExplainer_init)"
  by (simp add: CognitiveShapExplainer_init_def)

lemma ranges_ok_member: "ranges_ok self names \<Longrightarrow> n \<in> set names \<Longrightarrow> ranges_ok self [n]"
  by (simp add: ranges_ok_def list_all_iff)

lemma shap_prepare_init:
  "shap_prepare_feature_vector CognitiveShapExplainer_init feats
     = Inr (map (\<lambda>n. (n, entry_value CognitiveShapExplainer_init feats n))
                (shap_feature_names CognitiveShapExplainer_init))"
  using shap_prepare_loop_eq[OF init_names_distinct _ init_ranges_ok, of "[]" feats]
  by (simp add: shap_prepare_feature_vector_def)


lemma prepare_feature_vector_nth:
  assumes "i < length (feature_names self)"
  shows "prepare_feature_vector self feats ! i
           = (case map_of feats (feature_names self ! i) of
                Some v \<Rightarrow> if \<not> isnan v then clamp01 v else 0.5
              | None \<Rightarrow> 0.5)"
  using assms by (simp add: prepare_feature_vector_def)

lemma scorer_entry:
  assumes "i < length (feature_names self)"
  shows "0 \<le> prepare_feature_vector self feats ! i
       \<and> prepare_feature_vector self feats ! i \<le> 1
       \<and> (map_of feats (feature_names self ! i) = None
            \<or> map_of feats (feature_names self ! i) = Some NaN
          \<longrightarrow> prepare_feature_vector self feats ! i = 0.5)
       \<and> (\<forall>x. map_of feats (feature_names self ! i) = Some (Finite x)
          \<longrightarrow> prepare_feature_vector self feats ! i = max 0 (min 1 x))"
proof (cases "map_of feats (feature_names self ! i)")
  case None
  then show ?thesis using prepare_feature_vector_nth[OF assms, of feats] by simp
next
  case (Some v)
  then show ?thesis
    using prepare_feature_vector_nth[OF assms, of feats] clamp01_range[of v] clamp01_Finite
    by (cases v) auto
qed

lemma explainer_entry:
  assumes "ranges_ok self [n]"
  shows "0 \<le> entry_value self feats n \<and> entry_value self feats n \<le> 1
       \<and> (map_of feats n = None \<or> map_of feats n = Some NaN \<longrightarrow> entry_value self feats n = 0.5)
       \<and> (\<forall>x lo hi. map_of feats n = Some (Finite x)
                     \<and> map_of (feature_ranges self) n = Some (lo, hi)
          \<longrightarrow> entry_value self feats n = max 0 (min 1 ((x - lo) / (hi - lo))))"
proof -
  have fin: "entry_value self feats n = max 0 (min 1 ((x - lo) / (hi - lo)))"
    if "map_of feats n = Some (Finite x)" "map_of (feature_ranges self) n = Some (lo, hi)"
    for x lo hi
  proof -
    have "hi - lo \<noteq> 0" using assms that(2) by (simp add: ranges_ok_def)
    then show ?thesis
      using normalize_feature_Finite[OF that(2), of x] that(1) by (simp add: entry_value_def)
  qed
  have miss: "entry_value self feats n = 0.5"
    if "map_of feats n = None \<or> map_of feats n = Some NaN"
    using that by (auto simp: entry_value_def)
  show ?thesis using entry_value_range[OF assms, of feats] fin miss by blast
qed

text \<open>
  C5 as amended: both normalizers return one value in [0,1] for each enumerated feature;
  a missing or NaN entry becomes exactly 0.5; a present finite value is clamped into
  [0,1] by the scorer and rescaled by its configured range, then clamped, by the
  explainer.
\<close>

theorem normalizer_range:
  "length (prepare_feature_vector self feats) = length (feature_names self)
   \<and> (\<forall>i < length (feature_names self).
        0 \<le> prepare_feature_vector self feats ! i
        \<and> prepare_feature_vector self feats ! i \<le> 1
        \<and> (map_of feats (feature_names self ! i) = None
             \<or> map_of feats (feature_names self ! i) = Some NaN
           \<longrightarrow> prepare_feature_vector self feats ! i = 0.5)
        \<and> (\<forall>x. map_of feats (feature_names self ! i) = Some (Finite x)
           \<longrightarrow> prepare_feature_vector self feats ! i = max 0 (min 1 x)))
   \<and> (\<exists>vec. shap_prepare_feature_vector CognitiveShapExplainer_init feats = Inr vec
        \<and> map fst vec = shap_feature_names CognitiveShapExplainer_init
        \<and> (\<forall>n \<in> set (shap_feature_names CognitiveShapExplainer_init).
             \<exists>v. map_of vec n = Some v \<and> 0 \<le> v \<and> v \<le> 1
               \<and> (map_of feats n = None \<or> map_of feats n = Some NaN \<longrightarrow> v = 0.5)
               \<and> (\<forall>x lo hi. map_of feats n = Some (Finite x)
                     \<and> map_of (feature_ranges CognitiveShapExplainer_init) n = Some (lo, hi)
                  \<longrightarrow> v = max 0 (min 1 ((x - lo) / (hi - lo))))))"
proof (intro conjI)
  show "length (prepare_feature_vector self feats) = length (feature_names self)"
    by (simp add: prepare_feature_vector_def)
  show "\<forall>i < length (feature_names self).
        0 \<le> prepare_feature_vector self feats ! i
        \<and> prepare_feature_vector self feats ! i \<le> 1
        \<and> (map_of feats (feature_names self ! i) = None
             \<or> map_of feats (feature_names self ! i) = Some NaN
           \<longrightarrow> prepare_feature_vector self feats ! i = 0.5)
        \<and> (\<forall>x. map_of feats (feature_names self ! i) = Some (Finite x)
           \<longrightarrow> prepare_feature_vector self feats ! i = max 0 (min 1 x))"
    using scorer_entry by blast
  let ?E = CognitiveShapExplainer_init
  let ?vec = "map (\<lambda>n. (n, entry_value ?E feats n)) (shap_feature_names ?E)"
  have look: "map_of ?vec n = Some (entry_value ?E feats n)"
    if "n \<in> set (shap_feature_names ?E)" for n
    using that by (induction "shap_feature_names ?E") (auto simp: map_of_map_restrict)
  have "shap_prepare_feature_vector ?E feats = Inr ?vec
        \<and> map fst ?vec = shap_feature_names ?E
        \<and> (\<forall>n \<in> set (shap_feature_names ?E).
             \<exists>v. map_of ?vec n = Some v \<and> 0 \<le> v \<and> v \<le> 1
               \<and> (map_of feats n = None \<or> map_of feats n = Some NaN \<longrightarrow> v = 0.5)
               \<and> (\<forall>x lo hi. map_of feats n = Some (Finite x)
                     \<and> map_of (feature_ranges ?E) n = Some (lo, hi)
                  \<longrightarrow> v = max 0 (min 1 ((x - lo) / (hi - lo)))))"
  proof (intro conjI ballI)
    show "shap_prepare_feature_vector ?E feats = Inr ?vec" by (rule shap_prepare_init)
    show "map fst ?vec = shap_feature_names ?E" by (simp add: comp_def)
    fix n assume n: "n \<in> set (shap_feature_names ?E)"
    show "\<exists>v. map_of ?vec n = Some v \<and> 0 \<le> v \<and> v \<le> 1
               \<and> (map_of feats n = None \<or> map_of feats n = Some NaN \<longrightarrow> v = 0.5)
               \<and> (\<forall>x lo hi. map_of feats n = Some (Finite x)
                     \<and> map_of (feature_ranges ?E) n = Some (lo, hi)
                  \<longrightarrow> v = max 0 (min 1 ((x - lo) / (hi - lo))))"
      using look[OF n] explainer_entry[OF ranges_ok_member[OF init_ranges_ok n], of feats]
      by blast
  qed
  then show "\<exists>vec. shap_prepare_feature_vector ?E feats = Inr vec
        \<and> map fst vec = shap_feature_names ?E
        \<and> (\<forall>n \<in> set (shap_feature_names ?E).
             \<exists>v. map_of vec n = Some v \<and> 0 \<le> v \<and> v \<le> 1
               \<and> (map_of feats n = None \<or> map_of feats n = Some NaN \<longrightarrow> v = 0.5)
               \<and> (\<forall>x lo hi. map_of feats n = Some (Finite x)
                     \<and> map_of (feature_ranges ?E) n = Some (lo, hi)
                  \<longrightarrow> v = max 0 (min 1 ((x - lo) / (hi - lo)))))"
    by blast
qed

text \<open>An instance: a mapping with a NaN entry, an out-of-range entry, a missing entry
  and an entry in the middle of its range.\<close>

theorem normalizer_range_witness:
  "map_of features_mixed ''hesitationRatio'' = Some NaN
   \<and> prepare_feature_vector default_scorer features_mixed ! 11 = 0.5
   \<and> map_of features_mixed ''cognitiveHealthScore'' = Some (Finite 2)
   \<and> prepare_feature_vector default_scorer features_mixed ! 8 = 1
   \<and> map_of features_mixed ''sentenceCount'' = None
   \<and> prepare_feature_vector default_scorer features_mixed ! 1 = 0.5
   \<and> map_of features_mixed ''wordCount'' = Some (Finite 255)
   \<and> (\<exists>vec. shap_prepare_feature_vector CognitiveShapExplainer_init features_mixed = Inr vec
         \<and> map_of vec ''wordCount'' = Some (1 / 2)
         \<and> map_of vec ''hesitationRatio'' = Some (1 / 2))"
proof -
  note t = normalizer_range[of default_scorer features_mixed]
  have len: "length (feature_names default_scorer) = 12" by (simp add: scorer_init_simps)
  have n11: "feature_names default_scorer ! 11 = ''hesitationRatio''"
    and n8: "feature_names default_scorer ! 8 = ''cognitiveHealthScore''"
    and n1: "feature_names default_scorer ! 1 = ''sentenceCount''"
    by (simp_all add: scorer_init_simps)
  have m11: "map_of features_mixed ''hesitationRatio'' = Some NaN"
    and m8: "map_of features_mixed ''cognitiveHealthScore'' = Some (Finite 2)"
    and m1: "map_of features_mixed ''sentenceCount'' = None"
    and m0: "map_of features_mixed ''wordCount'' = Some (Finite 255)"
    by (simp_all add: features_mixed_def)
  from t len have e11: "(map_of features_mixed (feature_names default_scorer ! 11) = None
             \<or> map_of features_mixed (feature_names default_scorer ! 11) = Some NaN
           \<longrightarrow> prepare_feature_vector default_scorer features_mixed ! 11 = 0.5)"
    and e8: "(\<forall>x. map_of features_mixed (feature_names default_scorer ! 8) = Some (Finite x)
           \<longrightarrow> prepare_feature_vector default_scorer features_mixed ! 8 = max 0 (min 1 x))"
    and e1: "(map_of features_mixed (feature_names default_scorer ! 1) = None
             \<or> map_of features_mixed (feature_names default_scorer ! 1) = Some NaN
           \<longrightarrow> prepare_feature_vector default_scorer features_mixed ! 1 = 0.5)"
    by simp_all
  have a: "prepare_feature_vector default_scorer features_mixed ! 11 = 0.5"
    using e11 n11 m11 by simp
  have b: "prepare_feature_vector default_scorer features_mixed ! 8 = 1"
    using e8 n8 m8 by simp
  have c: "prepare_feature_vector default_scorer features_mixed ! 1 = 0.5"
    using e1 n1 m1 by simp
  from t obtain vec where
    v: "shap_prepare_feature_vector CognitiveShapExplainer_init features_mixed = Inr vec"
    and all: "\<forall>n \<in> set (shap_feature_names CognitiveShapExplainer_init).
             \<exists>v. map_of vec n = Some v \<and> 0 \<le> v \<and> v \<le> 1
               \<and> (map_of features_mixed n = None \<or> map_of features_mixed n = Some NaN \<longrightarrow> v = 0.5)
               \<and> (\<forall>x lo hi. map_of features_mixed n = Some (Finite x)
                     \<and> map_of (feature_ranges CognitiveShapExplainer_init) n = Some (lo, hi)
                  \<longrightarrow> v = max 0 (min 1 ((x - lo) / (hi - lo))))"
    by blast
  have w: "''wordCount'' \<in> set (shap_feature_names CognitiveShapExplainer_init)"
    and h: "''hesitationRatio'' \<in> set (shap_feature_names CognitiveShapExplainer_init)"
    by (simp_all add: CognitiveShapExplainer_init_def)
  have r: "map_of (feature_ranges CognitiveShapExplainer_init) ''wordCount'' = Some (10, 500)"
    by (simp add: CognitiveShapExplainer_init_def)
  from all w obtain v0 where v0: "map_of vec ''wordCount'' = Some v0"
    and f0: "\<forall>x lo hi. map_of features_mixed ''wordCount'' = Some (Finite x)
                     \<and> map_of (feature_ranges CognitiveShapExplainer_init) ''wordCount'' = Some (lo, hi)
                  \<longrightarrow> v0 = max 0 (min 1 ((x - lo) / (hi - lo)))"
    by blast
  from f0 m0 r have "v0 = max 0 (min 1 ((255 - 10) / (500 - 10)))" by blast
  then have v0': "v0 = 1 / 2" by simp
  from all h obtain v1 where v1: "map_of vec ''hesitationRatio'' = Some v1"
    and f1: "map_of features_mixed ''hesitationRatio'' = None
             \<or> map_of features_mixed ''hesitationRatio'' = Some NaN \<longrightarrow> v1 = 0.5"
    by blast
  from f1 m11 have v1': "v1 = 1 / 2" by simp
  show ?thesis using a b c m11 m8 m1 m0 v v0 v0' v1 v1' by auto
qed

section \<open>C6: the completeness bonus\<close>

text \<open>With the shipped scorer the bonus computed by the code is 1/5 for every raw mapping.\<close>

lemma completeness_bonus_constant:
  "completeness_bonus default_scorer (prepare_feature_vector default_scorer feats) = Inr (1 / 5)"
  by (simp add: completeness_bonus_def non_null_features_def prepare_feature_vector_def
      scorer_init_simps)

text \<open>
  C6 says that the completeness bonus is the share of the features present and finite in
  the raw mapping, times 0.2, hence 0 for an empty mapping. The code counts the entries of
  the prepared vector, in which every missing entry has already been replaced by 0.5: for
  the empty mapping it computes 1/5, where C6 gives 0.
\<close>

theorem completeness_bonus_always_full:
  "completeness_bonus default_scorer (prepare_feature_vector default_scorer []) = Inr (1 / 5)
   \<and> spec_completeness_bonus default_scorer [] = 0"
proof -
  have a: "completeness_bonus default_scorer
             [1 / 2, 1 / 2, 1 / 2, 1 / 2, 1 / 2, 1 / 2, 1 / 2, 1 / 2, 1 / 2, 1 / 2, 1 / 2, 1 / 2]
           = Inr (1 / 5)"
    by (simp add: completeness_bonus_def non_null_features_def scorer_init_simps)
  have b: "spec_completeness_bonus default_scorer [] = 0"
    by (simp add: spec_completeness_bonus_def)
  show ?thesis by (simp only: prepare_empty a b)
qed


section \<open>C7: determinism\<close>













section \<open>C8: the fallback rule\<close>

text \<open>
  C8 says that the fallback score is 0.7 times the primary feature plus 0.3 times 0.5
  when the primary feature is present and exactly 0.5 otherwise. The code also subtracts
  0.2 times \<^verbatim>\<open>hesitationRatio\<close> when that entry is present, and clamps at 0 from
  below: with \<^verbatim>\<open>hesitationRatio = 1.0\<close> alone the score is 0.3, not 0.5.
\<close>

theorem fallback_hesitation_penalty:
  "map_of features_hesitant ''cognitiveHealthScore'' = None
   \<and> riskScore (fallback_scoring default_scorer features_hesitant ''boom'') = Finite 0.3"
  by (simp add: features_hesitant_def fallback_scoring_def fallback_score_def Let_def py_max_def pf_sub_def)


text \<open>
  C8 as amended: with the score \<open>s\<close> equal to 0.7 times the primary feature plus 0.3
  times 0.5 when \<^verbatim>\<open>cognitiveHealthScore\<close> is present (and finite) and 0.5 when it
  is absent, the fallback returns \<open>s\<close> when \<^verbatim>\<open>hesitationRatio\<close> is absent and
  \<open>max 0 (s - 0.2 * hesitationRatio)\<close> when it is present (and finite); the confidence
  is 0.4, the error field holds the message and \<^verbatim>\<open>modelType\<close> is "fallback".
\<close>

theorem fallback_scoring_rule:
  "(map_of feats ''cognitiveHealthScore'' = Some (Finite c) \<and> map_of feats ''hesitationRatio'' = None
      \<longrightarrow> riskScore (fallback_scoring self feats msg) = Finite (c * 0.7 + 0.5 * 0.3))
   \<and> (map_of feats ''cognitiveHealthScore'' = None \<and> map_of feats ''hesitationRatio'' = None
      \<longrightarrow> riskScore (fallback_scoring self feats msg) = Finite 0.5)
   \<and> (map_of feats ''cognitiveHealthScore'' = Some (Finite c) \<and> map_of feats ''hesitationRatio'' = Some (Finite h)
      \<longrightarrow> riskScore (fallback_scoring self feats msg) = Finite (max 0 (c * 0.7 + 0.5 * 0.3 - h * 0.2)))
   \<and> (map_of feats ''cognitiveHealthScore'' = None \<and> map_of feats ''hesitationRatio'' = Some (Finite h)
      \<longrightarrow> riskScore (fallback_scoring self feats msg) = Finite (max 0 (0.5 - h * 0.2)))
   \<and> confidence (fallback_scoring self feats msg) = 0.4
   \<and> error (fallback_scoring self feats msg) = Some msg
   \<and> modelType (fallback_scoring self feats msg) = ''fallback''"
  by (auto simp: fallback_scoring_def fallback_score_def Let_def py_max_def pf_sub_def max_def)

theorem fallback_scoring_rule_witness:
  "riskScore (fallback_scoring default_scorer features_both ''boom'') = Finite 0.75
   \<and> riskScore (fallback_scoring default_scorer [] ''boom'') = Finite 0.5
   \<and> riskScore (fallback_scoring default_scorer features_hesitant ''boom'') = Finite 0.3
   \<and> riskScore (fallback_scoring default_scorer [(''cognitiveHealthScore'', Finite 1)] ''boom'') = Finite 0.85"
  using fallback_scoring_rule[where feats = features_both and c = 1 and h = "1 / 2"
        and self = default_scorer and msg = "''boom''"]
    fallback_scoring_rule[where feats = "[]" and self = default_scorer and msg = "''boom''"]
    fallback_scoring_rule[where feats = features_hesitant and h = 1
        and self = default_scorer and msg = "''boom''"]
    fallback_scoring_rule[where feats = "[(''cognitiveHealthScore'', Finite 1)]" and c = 1
        and self = default_scorer and msg = "''boom''"]
  by (simp add: features_both_def features_hesitant_def)


section \<open>C9: the degenerate attribution\<close>













section \<open>C10: the ensemble score and the weighted mean\<close>

text \<open>Evaluating \<open>round_double\<close>: the binade, then the nearest multiple of the unit.\<close>

lemma round_half_even_eval:
  assumes "of_int m - 1 / 2 < q" "q < of_int m + 1 / 2"
  shows "round_half_even q = m"
proof -
  have f: "of_int \<lfloor>q\<rfloor> \<le> q" "q < of_int \<lfloor>q\<rfloor> + 1" by linarith+
  have "\<lfloor>q\<rfloor> = m \<or> \<lfloor>q\<rfloor> = m - 1" using assms f by linarith
  then show ?thesis
  proof
    assume e: "\<lfloor>q\<rfloor> = m"
    then have "q - of_int \<lfloor>q\<rfloor> < 1 / 2" using assms by simp
    then show ?thesis using e by (simp add: round_half_even_def Let_def)
  next
    assume e: "\<lfloor>q\<rfloor> = m - 1"
    then have "1 / 2 < q - of_int \<lfloor>q\<rfloor>" using assms by simp
    then show ?thesis using e by (simp add: round_half_even_def Let_def)
  qed
qed

lemma round_double_eval:
  assumes "0 < x" "binade x = e"
    and "of_int m - 1 / 2 < x / pow2 (e - 52)" "x / pow2 (e - 52) < of_int m + 1 / 2"
  shows "round_double x = of_int m * pow2 (e - 52)"
proof -
  have "round_half_even (x / pow2 (e - 52)) = m"
    using assms(3,4) by (rule round_half_even_eval)
  then show ?thesis using assms(1,2) by (simp add: round_double_def Let_def)
qed

lemma double_009: "round_double (9 / 100) = 6485183463413514 / 2 ^ 56"
proof -
  have b: "binade (9 / 100) = - 4" by (simp add: binade_def exp_down.simps)
  show ?thesis
    using round_double_eval[of "9 / 100" "- 4" 6485183463413514, OF _ b]
    by (simp add: pow2_def)
qed

lemma double_089: "round_double (89 / 100) = 8016407336719483 / 2 ^ 53"
proof -
  have b: "binade (89 / 100) = - 1" by (simp add: binade_def exp_down.simps)
  show ?thesis
    using round_double_eval[of "89 / 100" "- 1" 8016407336719483, OF _ b]
    by (simp add: pow2_def)
qed

lemma double_product:
  "round_double (6485183463413514 / 2 ^ 56 * (8016407336719483 / 2 ^ 53))
     = 5771813282438028 / 2 ^ 56"
proof -
  have b: "binade (6485183463413514 / 2 ^ 56 * (8016407336719483 / 2 ^ 53)) = - 4"
    by (simp add: binade_def exp_down.simps)
  show ?thesis
    using round_double_eval[of "6485183463413514 / 2 ^ 56 * (8016407336719483 / 2 ^ 53)"
        "- 4" 5771813282438028, OF _ b]
    by (simp add: pow2_def)
qed


lemma double_sum_first:
  "round_double (5771813282438028 / 2 ^ 56) = 5771813282438028 / 2 ^ 56"
proof -
  have b: "binade (5771813282438028 / 2 ^ 56) = - 4" by (simp add: binade_def exp_down.simps)
  show ?thesis
    using round_double_eval[of "5771813282438028 / 2 ^ 56" "- 4" 5771813282438028, OF _ b]
    by (simp add: pow2_def)
qed

lemma double_weight_first:
  "round_double (8016407336719483 / 2 ^ 53) = 8016407336719483 / 2 ^ 53"
proof -
  have b: "binade (8016407336719483 / 2 ^ 53) = - 1" by (simp add: binade_def exp_down.simps)
  show ?thesis
    using round_double_eval[of "8016407336719483 / 2 ^ 53" "- 1" 8016407336719483, OF _ b]
    by (simp add: pow2_def)
qed

lemma double_quotient:
  "round_double (5771813282438028 / 2 ^ 56 / (8016407336719483 / 2 ^ 53))
     = 6485183463413515 / 2 ^ 56"
proof -
  have b: "binade (5771813282438028 / 2 ^ 56 / (8016407336719483 / 2 ^ 53)) = - 4"
    by (simp add: binade_def exp_down.simps)
  show ?thesis
    using round_double_eval[of "5771813282438028 / 2 ^ 56 / (8016407336719483 / 2 ^ 53)"
        "- 4" 6485183463413515, OF _ b]
    by (simp add: pow2_def)
qed


text \<open>
  C10 says that for a non-empty map of predictions in [0,1] the ensemble score equals the
  accuracy-weighted mean of the predictions and so lies between the smallest and the
  largest of them. The code computes the mean in binary64. For the single prediction
  \<^verbatim>\<open>{'random_forest': 0.09}\<close> the product with the accuracy 0.89 rounds to
  \<open>5771813282438028 / 2 ^ 56\<close>, and dividing it by the accuracy again gives
  \<open>6485183463413515 / 2 ^ 56\<close> (0.09000000000000001), one unit in the last place above
  the prediction \<open>6485183463413514 / 2 ^ 56\<close>, which is the only one and so the largest.
\<close>

theorem ensemble_score_above_maximum:
  "single_prediction = [(''random_forest'', 6485183463413514 / 2 ^ 56)]
   \<and> known_models default_scorer single_prediction
   \<and> calculate_ensemble_score_double default_scorer single_prediction
       = Inr (6485183463413515 / 2 ^ 56)
   \<and> Max (snd ` set single_prediction) = 6485183463413514 / 2 ^ 56
   \<and> \<not> (6485183463413515 / 2 ^ 56 \<le> Max (snd ` set single_prediction))"
proof -
  have s: "single_prediction = [(''random_forest'', 6485183463413514 / 2 ^ 56)]"
    using double_009 by (simp add: single_prediction_def)
  have k: "known_models default_scorer single_prediction"
    by (simp add: known_models_def s scorer_init_simps)
  have m: "map_of (models default_scorer) ''random_forest''
             = Some (create_mock_model scorer_feature_names ''RandomForest'' 0.89)"
    by (simp add: default_scorer_def CognitiveModelScorer_init_def load_models_def)
  have a: "accuracy (create_mock_model scorer_feature_names ''RandomForest'' 0.89) = 89 / 100"
    by (simp add: create_mock_model_def)
  have e: "ensemble_sums_double (models default_scorer) single_prediction (0, 0)
             = Inr (5771813282438028 / 2 ^ 56, 8016407336719483 / 2 ^ 53)"
    unfolding s by (simp only: ensemble_sums_double.simps m a option.case Let_def double_089
        double_product double_sum_first double_weight_first add_0)
  have c: "calculate_ensemble_score_double default_scorer single_prediction
             = Inr (6485183463413515 / 2 ^ 56)"
  proof -
    have ne: "single_prediction \<noteq> []" by (simp add: s)
    have nz: "(8016407336719483 / 2 ^ 53 :: real) \<noteq> 0" by simp
    show ?thesis unfolding calculate_ensemble_score_double_def e
      by (simp only: ne if_False sum.case prod.case nz double_quotient) simp
  qed
  show ?thesis using k c by (simp add: s)
qed


text \<open>The error of one rounding: at most \<open>2 ^ - 50\<close> below 8.\<close>

lemma exp_up_le: "a < 2 * 2 ^ k \<Longrightarrow> exp_up a \<le> int k"
proof (induction k arbitrary: a)
  case 0
  then show ?case by (simp add: exp_up.simps)
next
  case (Suc k)
  show ?case
  proof (cases "2 \<le> a")
    case True
    have "a / 2 < 2 * 2 ^ k" using Suc.prems by simp
    then have "exp_up (a / 2) \<le> int k" by (rule Suc.IH)
    then show ?thesis using True by (subst exp_up.simps) simp
  next
    case False
    then show ?thesis by (subst exp_up.simps) simp
  qed
qed

lemma exp_down_le: "exp_down a \<le> 0"
proof (induction a rule: exp_down.induct)
  case (1 x)
  show ?case
  proof (cases "0 < x \<and> x < 1")
    case True
    then have "exp_down (2 * x) \<le> 0" by (rule 1)
    then show ?thesis using True by (subst exp_down.simps) simp
  next
    case False
    then show ?thesis by (subst exp_down.simps) auto
  qed
qed

lemma binade_le: "a \<le> 8 \<Longrightarrow> binade a \<le> 3"
proof -
  assume "a \<le> 8"
  then have "a < 2 * 2 ^ 3" by simp
  then have "exp_up a \<le> int 3" by (rule exp_up_le)
  then show ?thesis using exp_down_le[of a] by (simp add: binade_def)
qed

lemma pow2_powr: "pow2 e = 2 powr (of_int e)"
proof (cases "0 \<le> e")
  case True
  then have "(2::real) powr (of_int e) = 2 powr (real (nat e))" by simp
  also have "\<dots> = 2 ^ nat e" by (simp add: powr_realpow)
  finally show ?thesis using True by (simp add: pow2_def)
next
  case False
  then have "(2::real) powr (of_int e) = 2 powr (- real (nat (- e)))" by simp
  also have "\<dots> = 1 / 2 powr (real (nat (- e)))" by (rule powr_minus_divide)
  also have "\<dots> = 1 / 2 ^ nat (- e)" by (simp add: powr_realpow)
  finally show ?thesis using False by (simp add: pow2_def)
qed

lemma pow2_pos: "0 < pow2 e"
  by (simp add: pow2_powr)

lemma pow2_mono: "e \<le> e' \<Longrightarrow> pow2 e \<le> pow2 e'"
  by (simp add: pow2_powr)

lemma round_half_even_err: "\<bar>of_int (round_half_even q) - q\<bar> \<le> 1 / 2"
proof -
  have "of_int \<lfloor>q\<rfloor> \<le> q" "q < of_int \<lfloor>q\<rfloor> + 1" by linarith+
  then show ?thesis by (simp add: round_half_even_def Let_def)
qed

lemma round_double_err:
  assumes "\<bar>x\<bar> \<le> 8"
  shows "\<bar>round_double x - x\<bar> \<le> 1 / 2 ^ 50"
proof -
  define u where "u = pow2 (binade \<bar>x\<bar> - 52)"
  define m where "m = round_half_even (\<bar>x\<bar> / u)"
  have up: "0 < u" by (simp add: u_def pow2_pos)
  have "binade \<bar>x\<bar> - 52 \<le> - 49" using binade_le[OF assms] by simp
  then have "u \<le> pow2 (- 49)" unfolding u_def by (rule pow2_mono)
  then have ub: "u \<le> 1 / 2 ^ 49" by (simp add: pow2_def)
  have r: "round_double x = sgn x * (of_int m * u)"
    by (simp add: round_double_def Let_def u_def m_def)
  have x: "x = sgn x * (\<bar>x\<bar> / u * u)" using up by (simp add: sgn_mult_abs)
  have "round_double x - x = sgn x * ((of_int m - \<bar>x\<bar> / u) * u)"
    by (subst x, subst r) (simp add: algebra_simps)
  then have "\<bar>round_double x - x\<bar> = \<bar>sgn x\<bar> * (\<bar>of_int m - \<bar>x\<bar> / u\<bar> * u)"
    using up by (simp add: abs_mult)
  also have "\<dots> \<le> 1 * (1 / 2 * u)"
  proof (rule mult_mono)
    show "\<bar>sgn x\<bar> \<le> 1" by (simp add: sgn_if)
    show "\<bar>of_int m - \<bar>x\<bar> / u\<bar> * u \<le> 1 / 2 * u"
      using round_half_even_err[of "\<bar>x\<bar> / u"] up by (simp add: m_def)
    show "0 \<le> (1::real)" by simp
    show "0 \<le> \<bar>of_int m - \<bar>x\<bar> / u\<bar> * u" using up by simp
  qed
  also have "\<dots> \<le> 1 / 2 ^ 50" using ub by simp
  finally show ?thesis .
qed


lemma weighted_sum_bounds:
  "\<forall>(n, p) \<in> set ps. 0 < w n \<and> lo \<le> p \<and> p \<le> hi \<Longrightarrow>
   lo * sum_list (map (\<lambda>(n, p). w n) ps) \<le> sum_list (map (\<lambda>(n, p). p * w n) ps)
   \<and> sum_list (map (\<lambda>(n, p). p * w n) ps) \<le> hi * sum_list (map (\<lambda>(n, p). w n) ps)"
  for w :: "string \<Rightarrow> real"
proof (induction ps)
  case Nil
  then show ?case by simp
next
  case (Cons a ps)
  obtain n p where a: "a = (n, p)" by (cases a)
  from Cons.prems have pos: "0 < w n" and b: "lo \<le> p" "p \<le> hi"
    by (auto simp: a)
  have r: "\<forall>(n, p) \<in> set ps. 0 < w n \<and> lo \<le> p \<and> p \<le> hi" using Cons.prems by simp
  have 1: "lo * w n \<le> p * w n" using b pos by simp
  have 2: "p * w n \<le> hi * w n" using b pos by simp
  show ?case using Cons.IH[OF r] 1 2 by (simp add: a algebra_simps)
qed

lemma weight_sum_bounds:
  "\<forall>(n, p) \<in> set ps. 1 / 2 \<le> w n \<and> w n \<le> 1 \<Longrightarrow>
   real (length ps) / 2 \<le> sum_list (map (\<lambda>(n, p). w n) ps)
   \<and> sum_list (map (\<lambda>(n, p). w n) ps) \<le> real (length ps)"
  for w :: "string \<Rightarrow> real"
  by (induction ps) auto

text \<open>The accumulated rounding error of the loop.\<close>

lemma ensemble_sums_double_err:
  assumes "\<forall>(n, p) \<in> set ps. map_of (models self) n \<noteq> None
             \<and> 1 / 2 \<le> double_accuracy_of self n \<and> double_accuracy_of self n \<le> 1
             \<and> 0 \<le> p \<and> p \<le> 1"
    and "\<bar>ws - S\<bar> \<le> d" "\<bar>tw - T\<bar> \<le> d'" "0 \<le> S" "0 \<le> T"
    and "S + real (length ps) \<le> 4" "T + real (length ps) \<le> 4"
    and "d + 2 * real (length ps) / 2 ^ 50 \<le> 1" "d' + real (length ps) / 2 ^ 50 \<le> 1"
  shows "\<exists>ws' tw'. ensemble_sums_double (models self) ps (ws, tw) = Inr (ws', tw')
           \<and> \<bar>ws' - (S + sum_list (map (\<lambda>(n, p). p * double_accuracy_of self n) ps))\<bar>
               \<le> d + 2 * real (length ps) / 2 ^ 50
           \<and> \<bar>tw' - (T + sum_list (map (\<lambda>(n, p). double_accuracy_of self n) ps))\<bar>
               \<le> d' + real (length ps) / 2 ^ 50"
  using assms
proof (induction ps arbitrary: ws tw S T d d')
  case Nil
  then show ?case by simp
next
  case (Cons a ps)
  obtain n p where a: "a = (n, p)" by (cases a)
  from Cons.prems(1) obtain info where i: "map_of (models self) n = Some info"
    by (auto simp: a)
  define w where "w = double_accuracy_of self n"
  have wi: "round_double (accuracy info) = w"
    by (simp add: w_def double_accuracy_of_def accuracy_of_def i)
  from Cons.prems(1) have wb: "1 / 2 \<le> w" "w \<le> 1" and pb: "0 \<le> p" "p \<le> 1"
    by (auto simp: a w_def)
  have rest: "\<forall>(n, p) \<in> set ps. map_of (models self) n \<noteq> None
             \<and> 1 / 2 \<le> double_accuracy_of self n \<and> double_accuracy_of self n \<le> 1
             \<and> 0 \<le> p \<and> p \<le> 1"
    using Cons.prems(1) by simp
  have len: "real (length (a # ps)) = real (length ps) + 1" by simp
  have l0: "0 \<le> real (length ps)" by simp
  note pr = Cons.prems(2-9)[unfolded len]
  have e0: "(0::real) \<le> 1 / 2 ^ 50" "(1::real) / 2 ^ 50 \<le> 1" by simp_all
  have pw: "0 \<le> p * w" "p * w \<le> 1"
    using pb wb by (simp_all add: mult_le_one)
  define q where "q = round_double (p * w)"
  have q: "\<bar>q - p * w\<bar> \<le> 1 / 2 ^ 50"
    unfolding q_def using pw by (intro round_double_err) simp
  have dle: "d \<le> 1" "d' \<le> 1" using pr(7,8) l0 e0
    by (simp_all add: add_divide_distrib algebra_simps) 
  define ws1 where "ws1 = round_double (ws + q)"
  have "\<bar>ws + q\<bar> \<le> 8" using pr(1,3,5) q pw dle l0 e0 by linarith
  then have ws1: "\<bar>ws1 - (ws + q)\<bar> \<le> 1 / 2 ^ 50"
    unfolding ws1_def by (rule round_double_err)
  define tw1 where "tw1 = round_double (tw + w)"
  have "\<bar>tw + w\<bar> \<le> 8" using pr(2,4,6) wb dle l0 by linarith
  then have tw1: "\<bar>tw1 - (tw + w)\<bar> \<le> 1 / 2 ^ 50"
    unfolding tw1_def by (rule round_double_err)
  have A: "\<bar>ws1 - (S + p * w)\<bar> \<le> d + 2 / 2 ^ 50" using ws1 q pr(1) by linarith
  have B: "\<bar>tw1 - (T + w)\<bar> \<le> d' + 1 / 2 ^ 50" using tw1 pr(2) by linarith
  have C: "0 \<le> S + p * w" "0 \<le> T + w" using pr(3,4) pw wb by linarith+
  have D: "S + p * w + real (length ps) \<le> 4" "T + w + real (length ps) \<le> 4"
    using pr(5,6) pw wb by linarith+
  have E: "d + 2 / 2 ^ 50 + 2 * real (length ps) / 2 ^ 50 \<le> 1"
    "d' + 1 / 2 ^ 50 + real (length ps) / 2 ^ 50 \<le> 1"
    using pr(7,8) by (simp_all add: add_divide_distrib algebra_simps)
  from Cons.IH[OF rest A B C D E] obtain ws' tw' where
    r: "ensemble_sums_double (models self) ps (ws1, tw1) = Inr (ws', tw')"
    and r1: "\<bar>ws' - (S + p * w + sum_list (map (\<lambda>(n, p). p * double_accuracy_of self n) ps))\<bar>
               \<le> d + 2 / 2 ^ 50 + 2 * real (length ps) / 2 ^ 50"
    and r2: "\<bar>tw' - (T + w + sum_list (map (\<lambda>(n, p). double_accuracy_of self n) ps))\<bar>
               \<le> d' + 1 / 2 ^ 50 + real (length ps) / 2 ^ 50"
    by blast
  have step: "ensemble_sums_double (models self) (a # ps) (ws, tw) = Inr (ws', tw')"
    using r by (simp add: a i wi Let_def q_def ws1_def tw1_def)
  have s1: "\<bar>ws' - (S + sum_list (map (\<lambda>(n, p). p * double_accuracy_of self n) (a # ps)))\<bar>
               \<le> d + 2 * real (length (a # ps)) / 2 ^ 50"
    using r1 by (simp add: a w_def add_divide_distrib algebra_simps)
  have s2: "\<bar>tw' - (T + sum_list (map (\<lambda>(n, p). double_accuracy_of self n) (a # ps)))\<bar>
               \<le> d' + real (length (a # ps)) / 2 ^ 50"
    using r2 by (simp add: a w_def add_divide_distrib algebra_simps)
  show ?case using step s1 s2 by blast
qed


lemma shipped_accuracy:
  assumes "map_of (models (CognitiveModelScorer_init path)) n = Some info"
  shows "85 / 100 \<le> accuracy info \<and> accuracy info \<le> 91 / 100"
  using assms
  by (auto simp: CognitiveModelScorer_init_def load_models_def create_mock_model_def
      split: if_splits)

lemma shipped_double_accuracy:
  assumes "map_of (models (CognitiveModelScorer_init path)) n \<noteq> None"
  shows "1 / 2 \<le> double_accuracy_of (CognitiveModelScorer_init path) n
         \<and> double_accuracy_of (CognitiveModelScorer_init path) n \<le> 1"
proof -
  from assms obtain info
    where i: "map_of (models (CognitiveModelScorer_init path)) n = Some info"
    by auto
  note b = shipped_accuracy[OF i]
  then have "\<bar>accuracy info\<bar> \<le> 8" by simp
  then have "\<bar>round_double (accuracy info) - accuracy info\<bar> \<le> 1 / 2 ^ 50"
    by (rule round_double_err)
  moreover have "(1::real) / 2 ^ 50 \<le> 1 / 100" by simp
  ultimately have "1 / 2 \<le> round_double (accuracy info) \<and> round_double (accuracy info) \<le> 1"
    using b by linarith
  then show ?thesis by (simp add: double_accuracy_of_def accuracy_of_def i)
qed

lemma shipped_length:
  assumes "distinct (map fst ps)"
    and "\<forall>(n, p) \<in> set ps. map_of (models (CognitiveModelScorer_init path)) n \<noteq> None"
  shows "length ps \<le> 4"
proof -
  let ?ms = "models (CognitiveModelScorer_init path)"
  have "set (map fst ps) \<subseteq> fst ` set ?ms"
    using assms(2) by (auto simp: map_of_eq_None_iff)
  then have "card (set (map fst ps)) \<le> card (fst ` set ?ms)"
    by (intro card_mono) simp_all
  also have "\<dots> \<le> card (set ?ms)" by (intro card_image_le) simp
  also have "\<dots> \<le> length ?ms" by (rule card_length)
  also have "\<dots> = 4" by (simp add: CognitiveModelScorer_init_def load_models_def)
  finally show ?thesis using distinct_card[OF assms(1)] by simp
qed

lemma clamp_nearer:
  fixes y m :: real
  assumes "0 \<le> m" "m \<le> 1"
  shows "\<bar>max 0 (min 1 y) - m\<bar> \<le> \<bar>y - m\<bar>"
  using assms by (simp add: max_def min_def) 


text \<open>
  C10 as amended: for every non-empty map of predictions in [0,1], each of a model of the
  shipped table, the ensemble score lies within \<open>2 ^ - 45\<close> of the accuracy-weighted mean
  of the predictions, hence between the smallest prediction minus \<open>2 ^ - 45\<close> and the
  largest plus \<open>2 ^ - 45\<close>, and in [0,1]. The keys of a map are distinct.
\<close>

theorem ensemble_score_double_near_mean:
  assumes "predictions \<noteq> []" and "distinct (map fst predictions)"
    and "known_models (CognitiveModelScorer_init path) predictions"
    and "\<forall>(n, p) \<in> set predictions. 0 \<le> p \<and> p \<le> 1"
  shows "\<exists>r. calculate_ensemble_score_double (CognitiveModelScorer_init path) predictions
                = Inr r
            \<and> \<bar>r - double_weighted_mean (CognitiveModelScorer_init path) predictions\<bar>
                \<le> 1 / 2 ^ 45
            \<and> Min (snd ` set predictions) - 1 / 2 ^ 45 \<le> r
            \<and> r \<le> Max (snd ` set predictions) + 1 / 2 ^ 45
            \<and> 0 \<le> r \<and> r \<le> 1"
proof -
  let ?self = "CognitiveModelScorer_init path"
  let ?S = "sum_list (map (\<lambda>(n, p). p * double_accuracy_of ?self n) predictions)"
  let ?T = "sum_list (map (\<lambda>(n, p). double_accuracy_of ?self n) predictions)"
  let ?M = "double_weighted_mean ?self predictions"
  have known: "\<forall>(n, p) \<in> set predictions. map_of (models ?self) n \<noteq> None"
    using assms(3) by (auto simp: known_models_def list_all_iff split: option.splits)
  have wts: "\<forall>(n, p) \<in> set predictions.
               1 / 2 \<le> double_accuracy_of ?self n \<and> double_accuracy_of ?self n \<le> 1"
    using known shipped_double_accuracy by blast
  have all: "\<forall>(n, p) \<in> set predictions. map_of (models ?self) n \<noteq> None
               \<and> 1 / 2 \<le> double_accuracy_of ?self n \<and> double_accuracy_of ?self n \<le> 1
               \<and> 0 \<le> p \<and> p \<le> 1"
    using known wts assms(4) by blast
  have len4: "real (length predictions) \<le> 4"
    using shipped_length[OF assms(2) known] by simp
  have len1: "1 \<le> real (length predictions)"
    using assms(1) by (cases predictions) simp_all
  have e1: "2 * real (length predictions) / 2 ^ 50 \<le> 8 / 2 ^ 50"
    and e2: "real (length predictions) / 2 ^ 50 \<le> 4 / 2 ^ 50"
    using len4 by (simp_all add: divide_right_mono)
  have "\<exists>ws' tw'. ensemble_sums_double (models ?self) predictions (0, 0) = Inr (ws', tw')
           \<and> \<bar>ws' - (0 + ?S)\<bar> \<le> 0 + 2 * real (length predictions) / 2 ^ 50
           \<and> \<bar>tw' - (0 + ?T)\<bar> \<le> 0 + real (length predictions) / 2 ^ 50"
  proof (rule ensemble_sums_double_err[OF all])
    show "\<bar>0 - 0 :: real\<bar> \<le> 0" "\<bar>0 - 0 :: real\<bar> \<le> 0" "(0::real) \<le> 0" "(0::real) \<le> 0" by simp_all
    show "0 + real (length predictions) \<le> 4" "0 + real (length predictions) \<le> 4"
      using len4 by simp_all
    show "0 + 2 * real (length predictions) / 2 ^ 50 \<le> 1" using e1 by simp
    show "0 + real (length predictions) / 2 ^ 50 \<le> 1" using e2 by simp
  qed
  then obtain ws' tw' where
    sums: "ensemble_sums_double (models ?self) predictions (0, 0) = Inr (ws', tw')"
    and ews: "\<bar>ws' - ?S\<bar> \<le> 8 / 2 ^ 50" and etw: "\<bar>tw' - ?T\<bar> \<le> 4 / 2 ^ 50"
    using e1 e2 by force
  have posw: "\<forall>(n, p) \<in> set predictions. 0 < double_accuracy_of ?self n \<and> 0 \<le> p \<and> p \<le> 1"
    using all by force
  have T: "1 / 2 \<le> ?T"
    using weight_sum_bounds[OF wts] len1 by linarith
  have S01: "0 \<le> ?S" "?S \<le> ?T"
    using weighted_sum_bounds[OF posw] by simp_all
  have M: "?S = ?M * ?T" using T by (simp add: double_weighted_mean_def)
  have M01: "0 \<le> ?M" "?M \<le> 1"
    using S01 T by (simp_all add: double_weighted_mean_def)
  have fin: "finite (snd ` set predictions)" by simp
  have mm: "\<forall>(n, p) \<in> set predictions. 0 < double_accuracy_of ?self n
              \<and> Min (snd ` set predictions) \<le> p \<and> p \<le> Max (snd ` set predictions)"
  proof (clarify)
    fix n p assume m: "(n, p) \<in> set predictions"
    then have "p \<in> snd ` set predictions" by force
    then have "Min (snd ` set predictions) \<le> p \<and> p \<le> Max (snd ` set predictions)"
      using fin by simp
    then show "0 < double_accuracy_of ?self n
              \<and> Min (snd ` set predictions) \<le> p \<and> p \<le> Max (snd ` set predictions)"
      using posw m by blast
  qed
  have Mmm: "Min (snd ` set predictions) \<le> ?M" "?M \<le> Max (snd ` set predictions)"
    using weighted_sum_bounds[OF mm] T
    by (simp_all add: double_weighted_mean_def pos_le_divide_eq pos_divide_le_eq)
  have c: "(4::real) / 2 ^ 50 \<le> 1 / 50" by simp
  have twp: "12 / 25 \<le> tw'" using etw T c by linarith
  have "ws' - ?M * tw' = (ws' - ?S) - ?M * (tw' - ?T)" using M by (simp add: algebra_simps)
  moreover have "\<bar>?M * (tw' - ?T)\<bar> \<le> 1 * (4 / 2 ^ 50)"
    unfolding abs_mult using M01 etw by (intro mult_mono) simp_all
  ultimately have num: "\<bar>ws' - ?M * tw'\<bar> \<le> 12 / 2 ^ 50" using ews by linarith
  have "ws' / tw' - ?M = (ws' - ?M * tw') / tw'" using twp by (simp add: field_simps)
  then have "\<bar>ws' / tw' - ?M\<bar> = \<bar>ws' - ?M * tw'\<bar> / tw'" using twp by simp
  also have "\<dots> \<le> (12 / 2 ^ 50) / (12 / 25)"
    using num twp by (intro frac_le) simp_all
  also have "\<dots> = 25 / 2 ^ 50" by simp
  finally have quo: "\<bar>ws' / tw' - ?M\<bar> \<le> 25 / 2 ^ 50" .
  have c2: "(25::real) / 2 ^ 50 \<le> 1" by simp
  have "\<bar>ws' / tw'\<bar> \<le> 8" using quo M01 c2 by linarith
  then have "\<bar>round_double (ws' / tw') - ws' / tw'\<bar> \<le> 1 / 2 ^ 50" by (rule round_double_err)
  then have y: "\<bar>round_double (ws' / tw') - ?M\<bar> \<le> 26 / 2 ^ 50" using quo by linarith
  define r where "r = max 0 (min 1 (round_double (ws' / tw')))"
  have c3: "(26::real) / 2 ^ 50 \<le> 1 / 2 ^ 45" by simp
  have rM: "\<bar>r - ?M\<bar> \<le> 1 / 2 ^ 45"
    using clamp_nearer[OF M01, of "round_double (ws' / tw')"] y c3 unfolding r_def by linarith
  have r01: "0 \<le> r" "r \<le> 1" by (simp_all add: r_def)
  have res: "calculate_ensemble_score_double ?self predictions = Inr r"
    using assms(1) sums twp by (simp add: calculate_ensemble_score_double_def r_def)
  have lo: "Min (snd ` set predictions) - 1 / 2 ^ 45 \<le> r" using rM Mmm(1) by linarith
  have hi: "r \<le> Max (snd ` set predictions) + 1 / 2 ^ 45" using rM Mmm(2) by linarith
  show ?thesis using res rM lo hi r01 by blast
qed


text \<open>An instance: three predictions that are doubles.\<close>

theorem ensemble_score_double_near_mean_witness:
  "dyadic_predictions \<noteq> [] \<and> distinct (map fst dyadic_predictions)
   \<and> known_models default_scorer dyadic_predictions
   \<and> (\<exists>r. calculate_ensemble_score_double default_scorer dyadic_predictions = Inr r
          \<and> \<bar>r - double_weighted_mean default_scorer dyadic_predictions\<bar> \<le> 1 / 2 ^ 45
          \<and> 1 / 4 - 1 / 2 ^ 45 \<le> r \<and> r \<le> 3 / 4 + 1 / 2 ^ 45 \<and> 0 \<le> r \<and> r \<le> 1)"
proof -
  have n: "dyadic_predictions \<noteq> []" by (simp add: dyadic_predictions_def)
  have d: "distinct (map fst dyadic_predictions)" by (simp add: dyadic_predictions_def)
  have k: "known_models (CognitiveModelScorer_init ''./models'') dyadic_predictions"
    by (simp add: known_models_def dyadic_predictions_def scorer_init_simps)
  have r: "\<forall>(n, p) \<in> set dyadic_predictions. 0 \<le> p \<and> p \<le> 1"
    by (simp add: dyadic_predictions_def)
  have mn: "Min (snd ` set dyadic_predictions) = 1 / 4"
    by (simp add: dyadic_predictions_def)
  have mx: "Max (snd ` set dyadic_predictions) = 3 / 4"
    by (simp add: dyadic_predictions_def)
  show ?thesis
    using ensemble_score_double_near_mean[OF n d k r] n d k
    by (simp add: mn mx default_scorer_def)
qed

end
